theory Spec2Isabelle
  imports Complex_Main
begin

section \<open>Values of the research response\<close>

text \<open>
  The response body of \<^verbatim>\<open>POST /api/research\<close> is parsed JSON. Reading a key of an
  object yields \<^verbatim>\<open>undefined\<close> when the key is absent, \<^verbatim>\<open>null\<close> when it is
  stored as null, and the stored value otherwise.

  Every key is given the type of what the research service stores under it: a number,
  a string, an array of topic entries or of posts, or an object. The type \<open>'e\<close> of the
  elements of the AI-topic sequence is a parameter: the extractor is modelled first on
  sequences of entry objects, then on sequences in which an element may be null.
  JavaScript numbers are taken as real numbers.
\<close>

datatype 'a js = Absent | Null | Val 'a

text \<open>A thrown Error object: its kind, carrying its \<^verbatim>\<open>message\<close>.\<close>

datatype js_error = TypeError (message: string) | SyntaxError (message: string)

text \<open>One AI-suggested topic: the six keys that the extractor reads.\<close>

record topic_entry =
  relevance_score :: "real js"
  score :: "real js"
  title :: "string js"
  topic :: "string js"
  description :: "string js"
  reasoning :: "string js"

text \<open>The object under \<^verbatim>\<open>ai_topic_suggestions\<close>.\<close>

record 'e ai_topic_suggestions_obj =
  topics :: "'e list js"

text \<open>
  A per-platform result object. The posts themselves are only copied by the extractor,
  so their type is a parameter.
\<close>

record 'p platform_results =
  sample_posts :: "'p list js"
  trending_topics :: "'p list js"
  sample_captions :: "'p list js"
  sample_titles :: "'p list js"

record ('e, 'p) research_body =
  ranked_topics :: "'e list js"
  ai_topic_suggestions :: "'e ai_topic_suggestions_obj js"
  twitter_results :: "'p platform_results js"
  tiktok_results :: "'p platform_results js"
  threads_results :: "'p platform_results js"
  reddit_results :: "'p platform_results js"

text \<open>A response whose AI-topic entries are objects.\<close>

type_synonym 'p raw_research_result = "(topic_entry, 'p) research_body"

text \<open>The display-facing records built by the extractor.\<close>

record 'p sources_obj =
  twitter :: "'p list"
  tiktok :: "'p list"
  threads :: "'p list"
  reddit :: "'p list"

record 'p Topic =
  id_t :: nat
  title :: string
  description :: string
  relevanceScore :: real
  sources :: "'p sources_obj"

section \<open>The JavaScript operators used by the extractor\<close>

text \<open>Truthiness of a number, of a string and of an array (every array is truthy).\<close>

definition truthy_num :: "real \<Rightarrow> bool" where
  "truthy_num v = (v \<noteq> 0)"

definition truthy_str :: "string \<Rightarrow> bool" where
  "truthy_str s = (s \<noteq> [])"

definition truthy_arr :: "'a list \<Rightarrow> bool" where
  "truthy_arr xs = True"

text \<open>\<^verbatim>\<open>a || b\<close> where both operands were read from keys.\<close>

fun or_field :: "('a \<Rightarrow> bool) \<Rightarrow> 'a js \<Rightarrow> 'a js \<Rightarrow> 'a js" where
  "or_field t (Val v) b = (if t v then Val v else b)"
| "or_field t Absent b = b"
| "or_field t Null b = b"

text \<open>\<^verbatim>\<open>a || d\<close> where \<open>d\<close> is a literal of the expected type.\<close>

fun or_else :: "('a \<Rightarrow> bool) \<Rightarrow> 'a js \<Rightarrow> 'a \<Rightarrow> 'a" where
  "or_else t (Val v) d = (if t v then v else d)"
| "or_else t Absent d = d"
| "or_else t Null d = d"

text \<open>Optional chaining \<^verbatim>\<open>x?.k\<close>: undefined when \<open>x\<close> is null or undefined.\<close>

fun opt_chain :: "'a js \<Rightarrow> ('a \<Rightarrow> 'b js) \<Rightarrow> 'b js" where
  "opt_chain (Val x) k = k x"
| "opt_chain Absent k = Absent"
| "opt_chain Null k = Absent"

text \<open>\<^verbatim>\<open>xs.slice(start, end)\<close> for non-negative integer arguments.\<close>

definition slice :: "'a list \<Rightarrow> nat \<Rightarrow> nat \<Rightarrow> 'a list" where
  "slice xs start stop = take (stop - start) (drop start xs)"

text \<open>
  The method call \<^verbatim>\<open>x.slice(start, end)\<close> on a value read through a chain: a TypeError
  when the receiver is null or undefined.
\<close>

fun call_slice :: "'a list js \<Rightarrow> nat \<Rightarrow> nat \<Rightarrow> js_error + 'a list" where
  "call_slice (Val xs) start stop = Inr (slice xs start stop)"
| "call_slice Absent start stop = Inl (TypeError ''Cannot read properties of undefined'')"
| "call_slice Null start stop = Inl (TypeError ''Cannot read properties of null'')"

text \<open>The positions of \<open>xs\<close> that \<open>slice\<close> copies.\<close>

definition slice_indices :: "nat \<Rightarrow> nat \<Rightarrow> nat \<Rightarrow> nat list" where
  "slice_indices len start stop = [start ..< min stop len]"

text \<open>The decimal numeral that a template literal prints for a natural number.\<close>

fun string_of_nat :: "nat \<Rightarrow> string" where
  "string_of_nat n =
     (if n < 10 then [''0123456789'' ! n]
      else string_of_nat (n div 10) @ [''0123456789'' ! (n mod 10)])"

declare string_of_nat.simps [simp del]

section \<open>extractTopicsWithSources\<close>

text \<open>
  Line 59 and lines 62 to 65: the AI-topic sequence and the four candidate-post
  sequences, each a fallback chain that ends in the empty array. The value of a chain
  is kept as read, since \<^verbatim>\<open>slice\<close> is called on it.
\<close>

definition aiTopics :: "('e, 'p) research_body \<Rightarrow> 'e list js" where
  "aiTopics d =
     or_field truthy_arr
       (or_field truthy_arr (ranked_topics d) (opt_chain (ai_topic_suggestions d) topics))
       (Val [])"

definition twitterPosts :: "('e, 'p) research_body \<Rightarrow> 'p list js" where
  "twitterPosts d =
     or_field truthy_arr
       (or_field truthy_arr (opt_chain (twitter_results d) sample_posts)
          (opt_chain (twitter_results d) trending_topics))
       (Val [])"

definition tiktokPosts :: "('e, 'p) research_body \<Rightarrow> 'p list js" where
  "tiktokPosts d =
     or_field truthy_arr
       (or_field truthy_arr (opt_chain (tiktok_results d) sample_posts)
          (opt_chain (tiktok_results d) sample_captions))
       (Val [])"

definition threadsPosts :: "('e, 'p) research_body \<Rightarrow> 'p list js" where
  "threadsPosts d = or_field truthy_arr (opt_chain (threads_results d) sample_posts) (Val [])"

definition redditPosts :: "('e, 'p) research_body \<Rightarrow> 'p list js" where
  "redditPosts d =
     or_field truthy_arr
       (or_field truthy_arr (opt_chain (reddit_results d) sample_posts)
          (opt_chain (reddit_results d) sample_titles))
       (Val [])"

text \<open>Line 69: the raw relevance number of one entry.\<close>

definition raw_relevance :: "topic_entry \<Rightarrow> real" where
  "raw_relevance t =
     or_else truthy_num (or_field truthy_num (relevance_score t) (score t)) 8"

text \<open>Lines 72 to 78: the scale inferred from the size of the raw number.\<close>

definition scale_relevance :: "real \<Rightarrow> real" where
  "scale_relevance v =
     (if v > 10 then v / 100
      else if v > 1 then v / 10
      else v)"

text \<open>Line 81: \<^verbatim>\<open>Math.min(Math.max(relevanceScore, 0), 1)\<close>.\<close>

definition clamp01 :: "real \<Rightarrow> real" where
  "clamp01 r = min (max r 0) 1"

definition normalize_relevance :: "real \<Rightarrow> real" where
  "normalize_relevance v = clamp01 (scale_relevance v)"

text \<open>Lines 85 and 86: the title and the description of the record pushed.\<close>

definition resolve_title :: "topic_entry \<Rightarrow> nat \<Rightarrow> string" where
  "resolve_title t index =
     or_else truthy_str (or_field truthy_str (topic_entry.title t) (topic t))
       (''Topic '' @ string_of_nat (index + 1))"

definition resolve_description :: "topic_entry \<Rightarrow> string" where
  "resolve_description t =
     or_else truthy_str (or_field truthy_str (topic_entry.description t) (reasoning t)) []"

text \<open>
  Lines 68 to 94: the callback of \<^verbatim>\<open>forEach\<close> for entry \<open>t\<close> at \<open>index\<close>. The four
  slices are taken in the order of the object literal; the first that throws ends the
  callback.
\<close>

definition callback ::
  "'p list js \<Rightarrow> 'p list js \<Rightarrow> 'p list js \<Rightarrow> 'p list js \<Rightarrow> topic_entry \<Rightarrow> nat
     \<Rightarrow> js_error + 'p Topic" where
  "callback tw tk th rd t index =
     (case call_slice tw (index * 2) (index * 2 + 2) of
        Inl e \<Rightarrow> Inl e
      | Inr a \<Rightarrow>
     (case call_slice tk index (index + 1) of
        Inl e \<Rightarrow> Inl e
      | Inr b \<Rightarrow>
     (case call_slice th index (index + 1) of
        Inl e \<Rightarrow> Inl e
      | Inr c \<Rightarrow>
     (case call_slice rd index (index + 1) of
        Inl e \<Rightarrow> Inl e
      | Inr r \<Rightarrow>
          Inr \<lparr> id_t = index,
                title = resolve_title t index,
                description = resolve_description t,
                relevanceScore = normalize_relevance (raw_relevance t),
                sources = \<lparr> twitter = a, tiktok = b, threads = c, reddit = r \<rparr> \<rparr>))))"

text \<open>
  \<^verbatim>\<open>forEach\<close> with its index: the callback runs on each element in order and pushes
  onto the array \<open>acc\<close>; a throw ends the loop.
\<close>

fun forEach_push ::
  "('a \<Rightarrow> nat \<Rightarrow> js_error + 'b) \<Rightarrow> 'a list \<Rightarrow> nat \<Rightarrow> 'b list \<Rightarrow> js_error + 'b list" where
  "forEach_push f [] index acc = Inr acc"
| "forEach_push f (x # xs) index acc =
     (case f x index of
        Inl e \<Rightarrow> Inl e
      | Inr y \<Rightarrow> forEach_push f xs (index + 1) (acc @ [y]))"

text \<open>
  Lines 55 to 98, on a body whose AI-topic entries are objects. The argument is
  whatever the response body parsed to. The first member access,
  \<^verbatim>\<open>data.ranked_topics\<close>, throws a TypeError when \<open>data\<close> is null or undefined.
\<close>

fun extractTopicsWithSources :: "'p raw_research_result js \<Rightarrow> js_error + 'p Topic list" where
  "extractTopicsWithSources (Val d) =
     (case call_slice (aiTopics d) 0 8 of
        Inl e \<Rightarrow> Inl e
      | Inr first8 \<Rightarrow>
          forEach_push
            (callback (twitterPosts d) (tiktokPosts d) (threadsPosts d) (redditPosts d))
            first8 0 [])"
| "extractTopicsWithSources Absent =
     Inl (TypeError ''Cannot read properties of undefined'')"
| "extractTopicsWithSources Null =
     Inl (TypeError ''Cannot read properties of null'')"

text \<open>
  The record that the callback pushes for entry \<open>t\<close> at \<open>index\<close> when the four
  receivers are the arrays \<open>tw\<close>, \<open>tk\<close>, \<open>th\<close> and \<open>rd\<close>.
\<close>

definition pushed_topic ::
  "'p list \<Rightarrow> 'p list \<Rightarrow> 'p list \<Rightarrow> 'p list \<Rightarrow> topic_entry \<Rightarrow> nat \<Rightarrow> 'p Topic" where
  "pushed_topic tw tk th rd t index =
     \<lparr> id_t = index,
       title = resolve_title t index,
       description = resolve_description t,
       relevanceScore = normalize_relevance (raw_relevance t),
       sources = \<lparr> twitter = slice tw (index * 2) (index * 2 + 2),
                   tiktok = slice tk index (index + 1),
                   threads = slice th index (index + 1),
                   reddit = slice rd index (index + 1) \<rparr> \<rparr>"

text \<open>
  An element of a parsed array can be null. The first statement of the callback, line
  69, reads \<^verbatim>\<open>topic.relevance_score\<close>, which throws a TypeError when \<open>topic\<close> is null
  or undefined; on an object the callback goes on as above.
\<close>

fun callback_nullable ::
  "'p list js \<Rightarrow> 'p list js \<Rightarrow> 'p list js \<Rightarrow> 'p list js \<Rightarrow> topic_entry js \<Rightarrow> nat
     \<Rightarrow> js_error + 'p Topic" where
  "callback_nullable tw tk th rd (Val t) index = callback tw tk th rd t index"
| "callback_nullable tw tk th rd Absent index =
     Inl (TypeError ''Cannot read properties of undefined'')"
| "callback_nullable tw tk th rd Null index =
     Inl (TypeError ''Cannot read properties of null'')"

text \<open>Lines 55 to 98 on a body whose AI-topic sequence may hold null elements.\<close>

fun extractTopicsWithSources_nullable ::
  "(topic_entry js, 'p) research_body js \<Rightarrow> js_error + 'p Topic list" where
  "extractTopicsWithSources_nullable (Val d) =
     (case call_slice (aiTopics d) 0 8 of
        Inl e \<Rightarrow> Inl e
      | Inr first8 \<Rightarrow>
          forEach_push
            (callback_nullable (twitterPosts d) (tiktokPosts d) (threadsPosts d) (redditPosts d))
            first8 0 [])"
| "extractTopicsWithSources_nullable Absent =
     Inl (TypeError ''Cannot read properties of undefined'')"
| "extractTopicsWithSources_nullable Null =
     Inl (TypeError ''Cannot read properties of null'')"

text \<open>An element that is an object, and the object it is.\<close>

fun is_object :: "'a js \<Rightarrow> bool" where
  "is_object (Val x) = True"
| "is_object Absent = False"
| "is_object Null = False"

text \<open>A body whose entries are objects, read as a body whose elements may be null.\<close>

fun object_elements :: "'a list js \<Rightarrow> 'a js list js" where
  "object_elements (Val xs) = Val (map Val xs)"
| "object_elements Absent = Absent"
| "object_elements Null = Null"

fun object_suggestions ::
  "topic_entry ai_topic_suggestions_obj js \<Rightarrow> topic_entry js ai_topic_suggestions_obj js" where
  "object_suggestions (Val a) = Val \<lparr> topics = object_elements (topics a) \<rparr>"
| "object_suggestions Absent = Absent"
| "object_suggestions Null = Null"

definition object_entries :: "'p raw_research_result \<Rightarrow> (topic_entry js, 'p) research_body" where
  "object_entries d =
     \<lparr> ranked_topics = object_elements (ranked_topics d),
       ai_topic_suggestions = object_suggestions (ai_topic_suggestions d),
       twitter_results = twitter_results d,
       tiktok_results = tiktok_results d,
       threads_results = threads_results d,
       reddit_results = reddit_results d \<rparr>"

text \<open>The five sequences that lines 59 to 65 select from the response \<open>d\<close>.\<close>

definition selected ::
  "('e, 'p) research_body \<Rightarrow> 'e list \<Rightarrow> 'p list \<Rightarrow> 'p list \<Rightarrow> 'p list \<Rightarrow> 'p list
     \<Rightarrow> bool" where
  "selected d xs tw tk th rd =
     (aiTopics d = Val xs \<and> twitterPosts d = Val tw \<and> tiktokPosts d = Val tk
      \<and> threadsPosts d = Val th \<and> redditPosts d = Val rd)"

text \<open>
  The positions of the candidate sequences that lines 89 to 92 copy for the topic at
  \<open>index\<close>: a pair for twitter, a single post for the other three platforms.
\<close>

definition twitter_window :: "nat \<Rightarrow> nat \<Rightarrow> nat list" where
  "twitter_window len index = slice_indices len (index * 2) (index * 2 + 2)"

definition single_post_window :: "nat \<Rightarrow> nat \<Rightarrow> nat list" where
  "single_post_window len index = slice_indices len index (index + 1)"

section \<open>The page state around the extractor\<close>

text \<open>
  The state of \<^verbatim>\<open>HomePage\<close> that the research call touches, together with the
  \<^verbatim>\<open>localStorage\<close> entry under the key \<^verbatim>\<open>podcastTopics\<close>. The entry holds the
  JSON text of a topic list; the model keeps the list itself, \<open>None\<close> being the
  missing entry. \<open>written\<close> lists the values passed to \<^verbatim>\<open>localStorage.setItem\<close> since
  the page was mounted, oldest first.
\<close>

record 'p home_page =
  isLoading :: bool
  topics :: "'p Topic list"
  error :: "string js"
  podcastTopics :: "'p Topic list option"
  written :: "'p Topic list list"

text \<open>Lines 18 to 22: the effect that runs after a render in which \<open>topics\<close> changed.\<close>

definition save_effect :: "'p home_page \<Rightarrow> 'p home_page" where
  "save_effect st =
     (if length (home_page.topics st) > 0
      then st\<lparr>podcastTopics := Some (home_page.topics st),
              written := written st @ [home_page.topics st]\<rparr>
      else st)"

text \<open>Lines 7 to 15 and the first run of the effect: the page as mounted.\<close>

definition mount :: "'p Topic list option \<Rightarrow> 'p home_page" where
  "mount saved =
     save_effect
       \<lparr> isLoading = False,
         topics = (case saved of Some ts \<Rightarrow> ts | None \<Rightarrow> []),
         error = Null,
         podcastTopics = saved,
         written = [] \<rparr>"

text \<open>Lines 25 to 27: the synchronous part of \<^verbatim>\<open>generateIdeas\<close>.\<close>

definition generateIdeas :: "'p home_page \<Rightarrow> 'p home_page" where
  "generateIdeas st = save_effect (st\<lparr>isLoading := True, error := Null, topics := []\<rparr>)"

text \<open>Lines 48 to 52: the \<^verbatim>\<open>catch\<close> handler.\<close>

definition on_rejected :: "js_error \<Rightarrow> 'p home_page \<Rightarrow> 'p home_page" where
  "on_rejected err st =
     st\<lparr>error := Val (or_else truthy_str (Val (message err)) ''Failed to generate ideas''),
        isLoading := False\<rparr>"

text \<open>
  Lines 40 to 47: the handler of the parsed body. When the extractor throws, neither
  setter has run and the rejection reaches the \<^verbatim>\<open>catch\<close> handler.
\<close>

definition on_fulfilled ::
  "(topic_entry js, 'p) research_body js \<Rightarrow> 'p home_page \<Rightarrow> 'p home_page" where
  "on_fulfilled data st =
     (case extractTopicsWithSources_nullable data of
        Inl err \<Rightarrow> on_rejected err st
      | Inr extractedTopics \<Rightarrow> save_effect (st\<lparr>topics := extractedTopics, isLoading := False\<rparr>))"

text \<open>
  The response that \<^verbatim>\<open>fetch\<close> resolves to: \<^verbatim>\<open>res.ok\<close>, false for a status outside
  200 to 299, and what \<^verbatim>\<open>res.json()\<close> settles to, a SyntaxError when the body is not
  JSON.
\<close>

record 'p response =
  ok :: bool
  json :: "js_error + (topic_entry js, 'p) research_body js"

text \<open>
  Line 39: \<^verbatim>\<open>res => res.json()\<close>, chained into the handler of the parsed body and
  the \<^verbatim>\<open>catch\<close> handler. \<^verbatim>\<open>res.ok\<close> is not read.
\<close>

definition on_response :: "'p response \<Rightarrow> 'p home_page \<Rightarrow> 'p home_page" where
  "on_response res st =
     (case json res of
        Inl err \<Rightarrow> on_rejected err st
      | Inr data \<Rightarrow> on_fulfilled data st)"

text \<open>
  What can happen to the page: a click on one of the generate buttons, a research call
  that the server answered, and a research call whose \<^verbatim>\<open>fetch\<close> was rejected because
  the network failed.
\<close>

datatype 'p event =
    Click
  | Responded "'p response"
  | NetworkError js_error

fun step :: "'p event \<Rightarrow> 'p home_page \<Rightarrow> 'p home_page" where
  "step Click st = generateIdeas st"
| "step (Responded res) st = on_response res st"
| "step (NetworkError err) st = on_rejected err st"

fun run :: "'p event list \<Rightarrow> 'p home_page \<Rightarrow> 'p home_page" where
  "run [] st = st"
| "run (ev # evs) st = run evs (step ev st)"

text \<open>\<^verbatim>\<open>{error && (...)}\<close>: the error panel is rendered when \<open>error\<close> is truthy.\<close>

fun error_shown :: "'p home_page \<Rightarrow> bool" where
  "error_shown st = (case error st of Val m \<Rightarrow> truthy_str m | Absent \<Rightarrow> False | Null \<Rightarrow> False)"

text \<open>
  A research call that fails, in the words of the specification: the network failed, or
  the server rejected the request with a non-success status.
\<close>

fun call_failed :: "'p event \<Rightarrow> bool" where
  "call_failed Click = False"
| "call_failed (Responded res) = (\<not> ok res)"
| "call_failed (NetworkError err) = True"

text \<open>
  A research call whose promise chain ends in the \<^verbatim>\<open>catch\<close> handler: the network
  failed, the body was not JSON, or the extractor threw on the parsed body.
\<close>

fun reaches_catch :: "'p event \<Rightarrow> bool" where
  "reaches_catch Click = False"
| "reaches_catch (Responded res) =
     (case json res of
        Inl err \<Rightarrow> True
      | Inr data \<Rightarrow> isl (extractTopicsWithSources_nullable data))"
| "reaches_catch (NetworkError err) = True"

section \<open>The resolution rules as the specification words them\<close>

text \<open>
  The first present of two fields, else a default; a field is present when its key
  holds a value other than null.
\<close>

fun first_present :: "'a js \<Rightarrow> 'a js \<Rightarrow> 'a \<Rightarrow> 'a" where
  "first_present (Val v) b d = v"
| "first_present Absent (Val w) d = w"
| "first_present Null (Val w) d = w"
| "first_present Absent Absent d = d"
| "first_present Absent Null d = d"
| "first_present Null Absent d = d"
| "first_present Null Null d = d"

definition claimed_raw_relevance :: "topic_entry \<Rightarrow> real" where
  "claimed_raw_relevance t = first_present (relevance_score t) (score t) 8"

definition claimed_title :: "topic_entry \<Rightarrow> nat \<Rightarrow> string" where
  "claimed_title t index =
     first_present (topic_entry.title t) (topic t) (''Topic '' @ string_of_nat (index + 1))"

text \<open>A field whose value is falsy counts as absent.\<close>

fun skip_falsy :: "('a \<Rightarrow> bool) \<Rightarrow> 'a js \<Rightarrow> 'a js" where
  "skip_falsy t (Val v) = (if t v then Val v else Absent)"
| "skip_falsy t Absent = Absent"
| "skip_falsy t Null = Absent"

section \<open>Sample inputs\<close>

text \<open>The objects without any of the keys read, written \<^verbatim>\<open>{}\<close> in JavaScript.\<close>

definition empty_entry :: topic_entry where
  "empty_entry =
     \<lparr> relevance_score = Absent, score = Absent, title = Absent, topic = Absent,
       description = Absent, reasoning = Absent \<rparr>"

definition empty_platform :: "string platform_results" where
  "empty_platform =
     \<lparr> sample_posts = Absent, trending_topics = Absent, sample_captions = Absent,
       sample_titles = Absent \<rparr>"

definition empty_result :: "string raw_research_result" where
  "empty_result =
     \<lparr> ranked_topics = Absent, ai_topic_suggestions = Absent, twitter_results = Absent,
       tiktok_results = Absent, threads_results = Absent, reddit_results = Absent \<rparr>"

text \<open>The object whose keys are all stored as null.\<close>

definition null_result :: "string raw_research_result" where
  "null_result =
     \<lparr> ranked_topics = Null, ai_topic_suggestions = Null, twitter_results = Null,
       tiktok_results = Null, threads_results = Null, reddit_results = Null \<rparr>"

text \<open>Three topics without keys, six twitter posts and three posts on the other platforms.\<close>

definition six_posts :: "string list" where
  "six_posts = [''p0'', ''p1'', ''p2'', ''p3'', ''p4'', ''p5'']"

definition three_posts :: "string list" where
  "three_posts = [''q0'', ''q1'', ''q2'']"

definition three_topics :: "string raw_research_result" where
  "three_topics =
     \<lparr> ranked_topics = Val [empty_entry, empty_entry, empty_entry],
       ai_topic_suggestions = Null,
       twitter_results = Val (empty_platform\<lparr>sample_posts := Val six_posts\<rparr>),
       tiktok_results = Val (empty_platform\<lparr>sample_captions := Val three_posts\<rparr>),
       threads_results = Val (empty_platform\<lparr>sample_posts := Val three_posts\<rparr>),
       reddit_results = Val (empty_platform\<lparr>sample_titles := Val three_posts\<rparr>) \<rparr>"


text \<open>The three records expected from \<open>three_topics\<close>.\<close>

definition three_extracted :: "string Topic list" where
  "three_extracted =
     [pushed_topic six_posts three_posts three_posts three_posts empty_entry 0,
      pushed_topic six_posts three_posts three_posts three_posts empty_entry 1,
      pushed_topic six_posts three_posts three_posts three_posts empty_entry 2]"

text \<open>
  A response with one topic scored 75, an entry whose first score is 0, a response
  whose only topic scores 0, and an entry whose title is the empty string.
\<close>

definition scored_75 :: topic_entry where
  "scored_75 = empty_entry\<lparr>relevance_score := Val 75\<rparr>"

definition one_scored :: "string raw_research_result" where
  "one_scored = empty_result\<lparr>ranked_topics := Val [scored_75]\<rparr>"

definition zero_scored :: topic_entry where
  "zero_scored = empty_entry\<lparr>relevance_score := Val 0, score := Val 5\<rparr>"

definition scored_0 :: topic_entry where
  "scored_0 = empty_entry\<lparr>relevance_score := Val 0\<rparr>"

definition zero_only :: "string raw_research_result" where
  "zero_only = empty_result\<lparr>ranked_topics := Val [scored_0]\<rparr>"

definition untitled :: topic_entry where
  "untitled = empty_entry\<lparr>topic_entry.title := Val [], topic := Val ''AI''\<rparr>"

text \<open>
  Bodies whose AI-topic sequence may hold null: the body without keys, the body
  \<^verbatim>\<open>{"ranked_topics": [null]}\<close>, a body of three entry objects with absent and null
  keys around them, and a body of eight entry objects followed by null.
\<close>

definition no_keys_body :: "(topic_entry js, string) research_body" where
  "no_keys_body =
     \<lparr> ranked_topics = Absent, ai_topic_suggestions = Absent, twitter_results = Absent,
       tiktok_results = Absent, threads_results = Absent, reddit_results = Absent \<rparr>"

definition null_entry_body :: "(topic_entry js, string) research_body" where
  "null_entry_body = no_keys_body\<lparr>ranked_topics := Val [Null]\<rparr>"

definition null_fields_entry :: topic_entry where
  "null_fields_entry =
     \<lparr> relevance_score = Null, score = Null, title = Null, topic = Null,
       description = Null, reasoning = Null \<rparr>"

definition mixed_body :: "(topic_entry js, string) research_body" where
  "mixed_body =
     \<lparr> ranked_topics = Null,
       ai_topic_suggestions =
         Val \<lparr> ai_topic_suggestions_obj.topics =
                 Val [Val empty_entry, Val null_fields_entry, Val scored_75] \<rparr>,
       twitter_results =
         Val (empty_platform\<lparr>sample_posts := Null, trending_topics := Val six_posts\<rparr>),
       tiktok_results = Null,
       threads_results = Absent,
       reddit_results = Val empty_platform \<rparr>"

definition eight_then_null :: "(topic_entry js, string) research_body" where
  "eight_then_null = no_keys_body\<lparr>ranked_topics := Val (replicate 8 (Val empty_entry) @ [Null])\<rparr>"

text \<open>
  A request that the server rejected with a non-success status and a JSON body holding
  none of the keys read, such as \<^verbatim>\<open>{"detail": "..."}\<close>.
\<close>

definition server_error :: "string response" where
  "server_error = \<lparr> ok = False, json = Inr (Val no_keys_body) \<rparr>"

text \<open>A response with a success status whose body is \<^verbatim>\<open>{"ranked_topics": [null]}\<close>.\<close>

definition null_entry_response :: "string response" where
  "null_entry_response = \<lparr> ok = True, json = Inr (Val null_entry_body) \<rparr>"

text \<open>A response with a success status whose body is \<open>three_topics\<close>.\<close>

definition three_topics_response :: "string response" where
  "three_topics_response = \<lparr> ok = True, json = Inr (Val (object_entries three_topics)) \<rparr>"

section \<open>Sharing of post positions\<close>

text \<open>
  Among the first \<open>n\<close> topics there are two distinct ones whose windows have a
  position in common.
\<close>

definition reuses_post_index :: "(nat \<Rightarrow> nat list) \<Rightarrow> nat \<Rightarrow> bool" where
  "reuses_post_index window n =
     list_ex (\<lambda>i. list_ex (\<lambda>j. i \<noteq> j \<and> list_ex (\<lambda>k. k \<in> set (window j)) (window i)) [0 ..< n])
       [0 ..< n]"

section \<open>The loop and the slices\<close>

lemmas chain_defs =
  aiTopics_def twitterPosts_def tiktokPosts_def threadsPosts_def redditPosts_def truthy_arr_def

lemmas sample_defs = empty_entry_def empty_platform_def empty_result_def null_result_def

lemma forEach_push_map:
  assumes "\<And>x k. f x k = Inr (g x k)"
  shows "forEach_push f xs i acc = Inr (acc @ map (\<lambda>(k, x). g x k) (enumerate i xs))"
  by (induction xs arbitrary: i acc) (simp_all add: assms)

lemma slice_conv_indices:
  "slice xs s e = map ((!) xs) (slice_indices (length xs) s e)"
proof (rule nth_equalityI)
  show "length (slice xs s e) = length (map ((!) xs) (slice_indices (length xs) s e))"
    by (simp add: slice_def slice_indices_def)
next
  fix i
  assume "i < length (slice xs s e)"
  then have b: "i < e - s" "s + i < length xs"
    by (auto simp add: slice_def)
  then have "s + i < min e (length xs)"
    by simp
  then have "[s ..< min e (length xs)] ! i = s + i"
    by (rule nth_upt)
  with b show "slice xs s e ! i = map ((!) xs) (slice_indices (length xs) s e) ! i"
    by (simp add: slice_def slice_indices_def)
qed

text \<open>Every chain ends in \<^verbatim>\<open>|| []\<close>, so its value is an array.\<close>

lemma or_array_Val: "\<exists>xs. or_field truthy_arr a (Val ys) = Val xs"
  by (cases a) (simp_all add: truthy_arr_def)

lemma selected_ex: "\<exists>xs tw tk th rd. selected d xs tw tk th rd"
  unfolding selected_def aiTopics_def twitterPosts_def tiktokPosts_def threadsPosts_def
    redditPosts_def
  using or_array_Val by metis

lemma callback_Val:
  "callback (Val tw) (Val tk) (Val th) (Val rd) t index = Inr (pushed_topic tw tk th rd t index)"
  by (simp add: callback_def pushed_topic_def)

lemma extract_selected:
  assumes "selected d xs tw tk th rd"
  shows "extractTopicsWithSources (Val d) =
     Inr (map (\<lambda>(k, x). pushed_topic tw tk th rd x k) (enumerate 0 (take 8 xs)))"
  using assms
  by (simp add: selected_def forEach_push_map [where g = "pushed_topic tw tk th rd"]
      callback_Val slice_def)

lemma extract_length:
  assumes "extractTopicsWithSources (Val d) = Inr ts" and "aiTopics d = Val xs"
  shows "length ts = min (length xs) 8"
proof -
  from selected_ex [of d] assms(2) obtain tw tk th rd where "selected d xs tw tk th rd"
    by (auto simp: selected_def)
  from extract_selected [OF this] assms(1) show ?thesis
    by (auto simp del: extractTopicsWithSources.simps)
qed

lemma extract_nth:
  assumes "extractTopicsWithSources (Val d) = Inr ts" and "i < length ts"
    and "selected d xs tw tk th rd"
  shows "ts ! i = pushed_topic tw tk th rd (xs ! i) i"
  using extract_selected [OF assms(3)] assms(1,2)
  by (auto simp del: extractTopicsWithSources.simps simp add: nth_enumerate_eq)

lemma extract_relevance:
  assumes "extractTopicsWithSources data = Inr ts" and "i < length ts"
  shows "\<exists>d xs. data = Val d \<and> aiTopics d = Val xs
           \<and> relevanceScore (ts ! i) = normalize_relevance (raw_relevance (xs ! i))"
proof (cases data)
  case (Val d)
  obtain xs tw tk th rd where s: "selected d xs tw tk th rd"
    using selected_ex by blast
  from assms Val have "ts ! i = pushed_topic tw tk th rd (xs ! i) i"
    using extract_nth [OF _ _ s] by blast
  with s Val show ?thesis
    by (simp add: pushed_topic_def selected_def)
qed (use assms in simp_all)

lemma selected_empty_result: "selected empty_result [] [] [] [] []"
  by (simp add: selected_def chain_defs sample_defs)

lemma selected_null_result: "selected null_result [] [] [] [] []"
  by (simp add: selected_def chain_defs sample_defs)

lemma selected_three_topics:
  "selected three_topics [empty_entry, empty_entry, empty_entry]
     six_posts three_posts three_posts three_posts"
  by (simp add: selected_def chain_defs sample_defs three_topics_def)

lemma selected_one_scored: "selected one_scored [scored_75] [] [] [] []"
  by (simp add: selected_def chain_defs sample_defs one_scored_def)

lemma selected_zero_only: "selected zero_only [scored_0] [] [] [] []"
  by (simp add: selected_def chain_defs sample_defs zero_only_def)

lemma extract_empty_result: "extractTopicsWithSources (Val empty_result) = Inr []"
  by (simp add: extract_selected [OF selected_empty_result] del: extractTopicsWithSources.simps)

lemma extract_null_result: "extractTopicsWithSources (Val null_result) = Inr []"
  by (simp add: extract_selected [OF selected_null_result] del: extractTopicsWithSources.simps)

lemma extract_one_scored:
  "extractTopicsWithSources (Val one_scored) = Inr [pushed_topic [] [] [] [] scored_75 0]"
  by (simp add: extract_selected [OF selected_one_scored] del: extractTopicsWithSources.simps)

lemma extract_zero_only:
  "extractTopicsWithSources (Val zero_only) = Inr [pushed_topic [] [] [] [] scored_0 0]"
  by (simp add: extract_selected [OF selected_zero_only] del: extractTopicsWithSources.simps)

lemma extract_three_topics:
  "extractTopicsWithSources (Val three_topics) = Inr three_extracted"
  by (simp add: extract_selected [OF selected_three_topics] three_extracted_def numeral_2_eq_2
      del: extractTopicsWithSources.simps)


lemma extract_relevance_nth:
  assumes "extractTopicsWithSources (Val d) = Inr ts" and "i < length ts"
    and "aiTopics d = Val xs"
  shows "relevanceScore (ts ! i) = normalize_relevance (raw_relevance (xs ! i))"
  using extract_relevance [OF assms(1,2)] assms(3) by auto


section \<open>Number and order of the topics\<close>



section \<open>The relevance score\<close>

lemma scale_cases:
  "(v > 10 \<longrightarrow> scale_relevance v = v / 100)
   \<and> (1 < v \<and> v \<le> 10 \<longrightarrow> scale_relevance v = v / 10)
   \<and> (v \<le> 1 \<longrightarrow> scale_relevance v = v)"
  by (simp add: scale_relevance_def)

lemma normalize_range: "0 \<le> normalize_relevance v \<and> normalize_relevance v \<le> 1"
  by (simp add: normalize_relevance_def clamp01_def)

lemma normalize_samples:
  "normalize_relevance 75 = 0.75 \<and> normalize_relevance 8 = 0.8 \<and> normalize_relevance 0.6 = 0.6"
  by (simp add: normalize_relevance_def clamp01_def scale_relevance_def)

lemma normalize_negative: "v < 0 \<Longrightarrow> normalize_relevance v = 0"
  by (simp add: normalize_relevance_def clamp01_def scale_relevance_def)

text \<open>
  C2. The raw number \<open>v\<close> is divided by 100 when it exceeds 10, by 10 when it lies in
  \<open>(1, 10]\<close>, and kept otherwise; the result is clamped into \<open>[0, 1]\<close>. Hence the score
  of every topic returned lies in \<open>[0, 1]\<close>; 75 gives 0.75, 8 gives 0.8, 0.6 stays 0.6
  and a negative number gives 0. Numbers are real numbers here.
\<close>

theorem relevance_normalized:
  "(v > 10 \<longrightarrow> scale_relevance v = v / 100)
   \<and> (1 < v \<and> v \<le> 10 \<longrightarrow> scale_relevance v = v / 10)
   \<and> (v \<le> 1 \<longrightarrow> scale_relevance v = v)
   \<and> normalize_relevance v = min (max (scale_relevance v) 0) 1
   \<and> 0 \<le> normalize_relevance v \<and> normalize_relevance v \<le> 1
   \<and> normalize_relevance 75 = 0.75 \<and> normalize_relevance 8 = 0.8
   \<and> normalize_relevance 0.6 = 0.6
   \<and> (v < 0 \<longrightarrow> normalize_relevance v = 0)
   \<and> (extractTopicsWithSources data = Inr ts \<longrightarrow>
        (\<forall>t \<in> set ts. 0 \<le> relevanceScore t \<and> relevanceScore t \<le> 1))"
proof -
  have out: "0 \<le> relevanceScore t \<and> relevanceScore t \<le> 1"
    if "extractTopicsWithSources data = Inr ts" and "t \<in> set ts" for t
  proof -
    from that(2) obtain i where i: "i < length ts" "ts ! i = t"
      by (auto simp: in_set_conv_nth)
    from extract_relevance [OF that(1) i(1)] i(2) show ?thesis
      by (auto simp: normalize_range)
  qed
  have "normalize_relevance v = min (max (scale_relevance v) 0) 1"
    by (simp add: normalize_relevance_def clamp01_def)
  with scale_cases [of v] normalize_range [of v] normalize_samples normalize_negative [of v] out
  show ?thesis by blast
qed

theorem relevance_normalized_witness:
  "scale_relevance 75 = 75 / 100 \<and> scale_relevance 8 = 8 / 10 \<and> scale_relevance 0.6 = 0.6
   \<and> normalize_relevance (- 3) = 0
   \<and> extractTopicsWithSources (Val one_scored) = Inr [pushed_topic [] [] [] [] scored_75 0]
   \<and> 0 \<le> relevanceScore (pushed_topic [] [] [] [] scored_75 (0::nat) :: string Topic)
   \<and> relevanceScore (pushed_topic [] [] [] [] scored_75 (0::nat) :: string Topic) \<le> 1"
  using relevance_normalized [of 75 "Val one_scored" "[pushed_topic [] [] [] [] scored_75 0]"]
    relevance_normalized [of 8 Null "[]"]
    relevance_normalized [of "0.6" Null "[]"]
    relevance_normalized [of "- 3" Null "[]"] extract_one_scored
  by (simp del: extractTopicsWithSources.simps)

lemma or_chain_first_present:
  "or_else t (or_field t a b) d = first_present (skip_falsy t a) (skip_falsy t b) d"
  by (cases a; cases b) simp_all

text \<open>
  C3, as claimed: the raw number is the first present of \<open>relevance_score\<close> and
  \<open>score\<close>. It is not: a \<open>relevance_score\<close> of 0 is present and is passed over, for
  \<open>score\<close> when that is non-zero and for the default 8 otherwise.
\<close>

theorem raw_relevance_counterexample:
  "relevance_score zero_scored = Val 0 \<and> score zero_scored = Val 5
   \<and> raw_relevance zero_scored = 5 \<and> claimed_raw_relevance zero_scored = 0
   \<and> raw_relevance zero_scored \<noteq> claimed_raw_relevance zero_scored
   \<and> relevance_score scored_0 = Val 0 \<and> score scored_0 = Absent
   \<and> raw_relevance scored_0 = 8 \<and> claimed_raw_relevance scored_0 = 0"
  by (simp add: zero_scored_def scored_0_def empty_entry_def raw_relevance_def
      claimed_raw_relevance_def truthy_num_def)

text \<open>
  C3, amended. The raw number is the first of \<open>relevance_score\<close> and \<open>score\<close> that
  holds a non-zero number, a field holding 0 or null counting as absent, and the default
  8 when neither does. A non-zero \<open>relevance_score\<close> is used whatever \<open>score\<close> holds,
  and the claimed rule is met by every entry in which neither field holds 0. The score
  of the topic pushed is the normalised raw number.
\<close>

theorem raw_relevance_first_nonzero:
  "raw_relevance t
     = first_present (skip_falsy truthy_num (relevance_score t))
         (skip_falsy truthy_num (score t)) 8
   \<and> (relevance_score t = Val v \<and> v \<noteq> 0 \<longrightarrow> raw_relevance t = v)
   \<and> (relevance_score t \<noteq> Val 0 \<and> score t \<noteq> Val 0 \<longrightarrow>
        raw_relevance t = claimed_raw_relevance t)
   \<and> (extractTopicsWithSources (Val d) = Inr ts \<and> i < length ts \<and> aiTopics d = Val xs \<longrightarrow>
        relevanceScore (ts ! i) = normalize_relevance (raw_relevance (xs ! i)))"
proof -
  have 1: "raw_relevance t
     = first_present (skip_falsy truthy_num (relevance_score t))
         (skip_falsy truthy_num (score t)) 8"
    by (simp add: raw_relevance_def or_chain_first_present)
  have 2: "raw_relevance t = v" if "relevance_score t = Val v" "v \<noteq> 0"
    using that by (simp add: 1 truthy_num_def)
  have 3: "raw_relevance t = claimed_raw_relevance t"
    if "relevance_score t \<noteq> Val 0" "score t \<noteq> Val 0"
    using that unfolding 1 claimed_raw_relevance_def
    by (cases "relevance_score t"; cases "score t") (auto simp: truthy_num_def)
  from 1 2 3 extract_relevance_nth [of d ts i xs] show ?thesis by blast
qed

theorem raw_relevance_first_nonzero_witness:
  "relevance_score (empty_entry\<lparr>relevance_score := Val 7, score := Val 3\<rparr>) = Val 7
   \<and> raw_relevance (empty_entry\<lparr>relevance_score := Val 7, score := Val 3\<rparr>) = 7
   \<and> claimed_raw_relevance (empty_entry\<lparr>relevance_score := Val 7, score := Val 3\<rparr>) = 7
   \<and> extractTopicsWithSources (Val one_scored) = Inr [pushed_topic [] [] [] [] scored_75 0]
   \<and> relevanceScore (pushed_topic [] [] [] [] scored_75 (0::nat) :: string Topic)
       = normalize_relevance (raw_relevance scored_75)"
proof -
  have a: "aiTopics one_scored = Val [scored_75]"
    using selected_one_scored by (simp add: selected_def)
  have h: "relevance_score (empty_entry\<lparr>relevance_score := Val 7, score := Val 3\<rparr>) = Val 7"
    "relevance_score (empty_entry\<lparr>relevance_score := Val 7, score := Val 3\<rparr>) \<noteq> Val 0"
    "score (empty_entry\<lparr>relevance_score := Val 7, score := Val 3\<rparr>) \<noteq> Val 0"
    "(7::real) \<noteq> 0"
    by (simp_all add: empty_entry_def)
  note t = raw_relevance_first_nonzero
    [of "empty_entry\<lparr>relevance_score := Val 7, score := Val 3\<rparr>" 7 one_scored
      "[pushed_topic [] [] [] [] scored_75 0]" 0 "[scored_75]"]
  from t h have 1: "raw_relevance (empty_entry\<lparr>relevance_score := Val 7, score := Val 3\<rparr>) = 7"
    by blast
  from t h have 2: "raw_relevance (empty_entry\<lparr>relevance_score := Val 7, score := Val 3\<rparr>)
      = claimed_raw_relevance (empty_entry\<lparr>relevance_score := Val 7, score := Val 3\<rparr>)"
    by blast
  from t extract_one_scored a
  have 3: "relevanceScore ([pushed_topic [] [] [] [] scored_75 (0::nat) :: string Topic] ! 0)
       = normalize_relevance (raw_relevance ([scored_75] ! 0))"
    by (simp del: extractTopicsWithSources.simps)
  from 1 2 3 h(1) extract_one_scored show ?thesis
    by (simp del: extractTopicsWithSources.simps)
qed

text \<open>
  C10. An entry whose \<open>relevance_score\<close> is the number 0, with \<open>score\<close> absent or
  0 as well, gets the score 0.8 (the default 8 on the ten-point scale), not 0.
\<close>

theorem zero_relevance_default:
  assumes "relevance_score t = Val 0" and "score t = Absent \<or> score t = Val 0"
  shows "raw_relevance t = 8
    \<and> relevanceScore (pushed_topic tw tk th rd t index :: 'p Topic) = 0.8
    \<and> (extractTopicsWithSources (Val (d :: 'p raw_research_result)) = Inr ts
          \<and> i < length ts \<and> aiTopics d = Val xs
          \<and> xs ! i = t \<longrightarrow> relevanceScore (ts ! i) = 0.8)"
proof -
  from assms have r: "raw_relevance t = 8"
    by (auto simp: raw_relevance_def truthy_num_def)
  then have n: "normalize_relevance (raw_relevance t) = 0.8"
    by (simp add: normalize_relevance_def scale_relevance_def clamp01_def)
  have "relevanceScore (ts ! i) = 0.8"
    if "extractTopicsWithSources (Val d) = Inr ts" "i < length ts" "aiTopics d = Val xs"
      "xs ! i = t"
    using extract_relevance_nth [OF that(1,2,3)] that(4) n by simp
  with r n show ?thesis
    by (simp add: pushed_topic_def del: extractTopicsWithSources.simps)
qed

theorem zero_relevance_default_witness:
  "relevance_score scored_0 = Val 0 \<and> score scored_0 = Absent
   \<and> extractTopicsWithSources (Val zero_only) = Inr [pushed_topic [] [] [] [] scored_0 0]
   \<and> relevanceScore (pushed_topic [] [] [] [] scored_0 (0::nat) :: string Topic) = 0.8"
proof -
  have h: "relevance_score scored_0 = Val 0" "score scored_0 = Absent"
    by (simp_all add: scored_0_def empty_entry_def)
  from h(2) have h2: "score scored_0 = Absent \<or> score scored_0 = Val 0"
    by simp
  have a: "aiTopics zero_only = Val [scored_0]"
    using selected_zero_only by (simp add: selected_def)
  note z = zero_relevance_default [OF h(1) h2, of "[]" "[]" "[]" "[]" 0 zero_only
      "[pushed_topic [] [] [] [] scored_0 0]" 0 "[scored_0]"]
  have n: "[scored_0] ! 0 = scored_0" "(0::nat) < length [pushed_topic [] [] [] [] scored_0 0]"
    by simp_all
  from z extract_zero_only a n
  have "relevanceScore ([pushed_topic [] [] [] [] scored_0 (0::nat) :: string Topic] ! 0) = 0.8"
    by blast
  then show ?thesis
    using h extract_zero_only by (simp del: extractTopicsWithSources.simps)
qed

section \<open>The title\<close>

lemma extract_title:
  assumes "extractTopicsWithSources (Val d) = Inr ts" and "i < length ts"
    and "aiTopics d = Val xs"
  shows "Topic.title (ts ! i) = resolve_title (xs ! i) i"
proof -
  from selected_ex [of d] assms(3) obtain tw tk th rd where s: "selected d xs tw tk th rd"
    by (auto simp: selected_def)
  from extract_nth [OF assms(1,2) s] show ?thesis
    by (simp add: pushed_topic_def)
qed

text \<open>
  C4, as claimed: the title is the first present of \<open>title\<close> and \<open>topic\<close>, the
  label being used exactly when both are absent. It is not: a \<open>title\<close> that is the
  empty string is present and is passed over, for \<open>topic\<close> when that is non-empty and
  for the label otherwise.
\<close>

theorem title_counterexample:
  "topic_entry.title untitled = Val [] \<and> topic untitled = Val ''AI''
   \<and> resolve_title untitled 0 = ''AI'' \<and> claimed_title untitled 0 = []
   \<and> resolve_title untitled 0 \<noteq> claimed_title untitled 0
   \<and> resolve_title (empty_entry\<lparr>topic_entry.title := Val []\<rparr>) 0 = ''Topic 1''"
  by (simp add: untitled_def empty_entry_def resolve_title_def claimed_title_def
      truthy_str_def string_of_nat.simps)

text \<open>
  C4, amended. The title is the first of \<open>title\<close> and \<open>topic\<close> that holds a
  non-empty string, a field holding the empty string or null counting as absent, and
  the label \<^verbatim>\<open>Topic\<close> followed by \<open>index + 1\<close> when neither does. The claimed rule is
  met by every entry in which neither field holds the empty string, and an entry with
  neither key at index 2 is titled \<^verbatim>\<open>Topic 3\<close>.
\<close>

theorem title_first_nonempty:
  "resolve_title t index
     = first_present (skip_falsy truthy_str (topic_entry.title t)) (skip_falsy truthy_str (topic t))
         (''Topic '' @ string_of_nat (index + 1))
   \<and> (topic_entry.title t \<noteq> Val [] \<and> topic t \<noteq> Val [] \<longrightarrow>
        resolve_title t index = claimed_title t index)
   \<and> (topic_entry.title t = Absent \<and> topic t = Absent \<longrightarrow> resolve_title t 2 = ''Topic 3'')
   \<and> (extractTopicsWithSources (Val d) = Inr ts \<and> i < length ts \<and> aiTopics d = Val xs \<longrightarrow>
        Topic.title (ts ! i) = resolve_title (xs ! i) i)"
proof -
  have 1: "resolve_title t index
     = first_present (skip_falsy truthy_str (topic_entry.title t)) (skip_falsy truthy_str (topic t))
         (''Topic '' @ string_of_nat (index + 1))" for index
    by (simp add: resolve_title_def or_chain_first_present)
  have 2: "resolve_title t index = claimed_title t index"
    if "topic_entry.title t \<noteq> Val []" "topic t \<noteq> Val []"
    using that unfolding 1 claimed_title_def
    by (cases "topic_entry.title t"; cases "topic t") (auto simp: truthy_str_def)
  have 3: "resolve_title t 2 = ''Topic 3''" if "topic_entry.title t = Absent" "topic t = Absent"
    using that by (simp add: 1 string_of_nat.simps)
  from 1 2 3 extract_title [of d ts i xs] show ?thesis by blast
qed

theorem title_first_nonempty_witness:
  "topic_entry.title empty_entry = Absent \<and> topic empty_entry = Absent
   \<and> resolve_title empty_entry 2 = ''Topic 3''
   \<and> claimed_title empty_entry 2 = ''Topic 3''
   \<and> extractTopicsWithSources (Val three_topics) = Inr three_extracted
   \<and> Topic.title (three_extracted ! 2) = ''Topic 3''"
proof -
  have a: "aiTopics three_topics = Val [empty_entry, empty_entry, empty_entry]"
    using selected_three_topics by (simp add: selected_def)
  have l: "2 < length three_extracted"
    by (simp add: three_extracted_def)
  have e: "topic_entry.title empty_entry = Absent \<and> topic empty_entry = Absent"
    by (simp add: empty_entry_def)
  have ne: "topic_entry.title empty_entry \<noteq> Val [] \<and> topic empty_entry \<noteq> Val []"
    by (simp add: empty_entry_def)
  note t = title_first_nonempty [of empty_entry 2 three_topics three_extracted 2
      "[empty_entry, empty_entry, empty_entry]"]
  from t e have r: "resolve_title empty_entry 2 = ''Topic 3''"
    by blast
  from t ne have c: "resolve_title empty_entry 2 = claimed_title empty_entry 2"
    by blast
  from t extract_three_topics l a
  have "Topic.title (three_extracted ! 2)
      = resolve_title ([empty_entry, empty_entry, empty_entry] ! 2) 2"
    by blast
  then have x: "Topic.title (three_extracted ! 2) = resolve_title empty_entry 2"
    by simp
  from r c x e extract_three_topics show ?thesis
    by (simp del: extractTopicsWithSources.simps)
qed


section \<open>The source slices\<close>

lemma twitter_window_explicit: "twitter_window n i = filter (\<lambda>k. k < n) [2 * i, 2 * i + 1]"
  by (auto simp: twitter_window_def slice_indices_def min_def upt_conv_Cons)

lemma single_post_window_explicit: "single_post_window n i = filter (\<lambda>k. k < n) [i]"
  by (auto simp: single_post_window_def slice_indices_def min_def upt_conv_Cons)

lemma twitter_window_disjoint:
  "i \<noteq> j \<Longrightarrow> set (twitter_window n i) \<inter> set (twitter_window n j) = {}"
  by (auto simp: twitter_window_explicit)

lemma single_post_window_disjoint:
  "i \<noteq> j \<Longrightarrow> set (single_post_window n i) \<inter> set (single_post_window n j) = {}"
  by (auto simp: single_post_window_explicit)

lemma extract_sources:
  assumes "extractTopicsWithSources (Val d) = Inr ts" and "i < length ts"
    and "selected d xs tw tk th rd"
  shows "twitter (sources (ts ! i)) = slice tw (2 * i) (2 * i + 2)"
    and "tiktok (sources (ts ! i)) = slice tk i (i + 1)"
    and "threads (sources (ts ! i)) = slice th i (i + 1)"
    and "reddit (sources (ts ! i)) = slice rd i (i + 1)"
  using extract_nth [OF assms]
  by (simp_all add: pushed_topic_def mult.commute)

lemma slice_single: "i < length xs \<Longrightarrow> slice xs i (i + 1) = [xs ! i]"
  by (simp add: slice_conv_indices slice_indices_def min_def upt_conv_Cons)

lemma three_nth_list:
  assumes "length ts = 3"
  shows "map f ts = [f (ts ! 0), f (ts ! 1), f (ts ! 2)]"
proof -
  from assms obtain a b c where "ts = [a, b, c]"
    by (auto simp: length_Suc_conv numeral_3_eq_3)
  then show ?thesis by simp
qed

text \<open>
  C5. The topic at position \<open>i\<close> gets the twitter posts at positions \<open>2 i\<close> and
  \<open>2 i + 1\<close>, as far as they exist: at most two, fewer or none out of range. The
  positions used by two distinct topics are disjoint. Six posts and three topics give
  the three pairs in order.
\<close>

theorem twitter_disjoint_pairs:
  "\<exists>ts tw. extractTopicsWithSources (Val d) = Inr ts \<and> twitterPosts d = Val tw
    \<and> (\<forall>i < length ts.
          twitter (sources (ts ! i)) = slice tw (2 * i) (2 * i + 2)
          \<and> twitter (sources (ts ! i)) = map ((!) tw) (twitter_window (length tw) i)
          \<and> length (twitter (sources (ts ! i))) \<le> 2
          \<and> (length tw \<le> 2 * i \<longrightarrow> twitter (sources (ts ! i)) = []))
    \<and> (tw = [p0, p1, p2, p3, p4, p5] \<and> length ts = 3 \<longrightarrow>
          map (\<lambda>t. twitter (sources t)) ts = [[p0, p1], [p2, p3], [p4, p5]])
    \<and> twitter_window n a = filter (\<lambda>k. k < n) [2 * a, 2 * a + 1]
    \<and> (a \<noteq> b \<longrightarrow> set (twitter_window n a) \<inter> set (twitter_window n b) = {})
    \<and> \<not> reuses_post_index (twitter_window n) m"
proof -
  obtain xs tw tk th rd where s: "selected d xs tw tk th rd"
    using selected_ex by blast
  from extract_selected [OF s] obtain ts where ts: "extractTopicsWithSources (Val d) = Inr ts"
    by blast
  have 1: "twitter (sources (ts ! i)) = slice tw (2 * i) (2 * i + 2)" if "i < length ts" for i
    using extract_sources(1) [OF ts that s] .
  have 2: "twitter (sources (ts ! i)) = map ((!) tw) (twitter_window (length tw) i)"
    if "i < length ts" for i
    by (simp add: 1 [OF that] slice_conv_indices twitter_window_def mult.commute)
  have 3: "length (twitter (sources (ts ! i))) \<le> 2" if "i < length ts" for i
    by (simp add: 1 [OF that] slice_def)
  have 4: "map (\<lambda>t. twitter (sources t)) ts = [[p0, p1], [p2, p3], [p4, p5]]"
    if "tw = [p0, p1, p2, p3, p4, p5]" "length ts = 3"
    by (simp add: three_nth_list [OF that(2)] 1 that slice_def)
  have 5: "\<not> reuses_post_index (twitter_window n) m"
    using twitter_window_disjoint [of _ _ n]
    by (auto simp: reuses_post_index_def list_ex_iff)
  have 6: "twitter (sources (ts ! i)) = []" if "i < length ts" "length tw \<le> 2 * i" for i
    using that(2) by (simp add: 1 [OF that(1)] slice_def)
  from s have p: "twitterPosts d = Val tw"
    by (simp add: selected_def)
  from 1 2 3 6 have A: "\<forall>i < length ts.
          twitter (sources (ts ! i)) = slice tw (2 * i) (2 * i + 2)
          \<and> twitter (sources (ts ! i)) = map ((!) tw) (twitter_window (length tw) i)
          \<and> length (twitter (sources (ts ! i))) \<le> 2
          \<and> (length tw \<le> 2 * i \<longrightarrow> twitter (sources (ts ! i)) = [])"
    by simp
  from 4 have B: "tw = [p0, p1, p2, p3, p4, p5] \<and> length ts = 3 \<longrightarrow>
          map (\<lambda>t. twitter (sources t)) ts = [[p0, p1], [p2, p3], [p4, p5]]"
    by simp
  have C: "a \<noteq> b \<longrightarrow> set (twitter_window n a) \<inter> set (twitter_window n b) = {}"
    using twitter_window_disjoint [of a b n] by simp
  show ?thesis
    by (rule exI [of _ ts], rule exI [of _ tw])
      (intro conjI ts p A B C 5 twitter_window_explicit)
qed

theorem twitter_disjoint_pairs_witness:
  "extractTopicsWithSources (Val three_topics) = Inr three_extracted
   \<and> twitterPosts three_topics = Val [''p0'', ''p1'', ''p2'', ''p3'', ''p4'', ''p5'']
   \<and> length three_extracted = 3
   \<and> map (\<lambda>t. twitter (sources t)) three_extracted
       = [[''p0'', ''p1''], [''p2'', ''p3''], [''p4'', ''p5'']]
   \<and> set (twitter_window 6 0) \<inter> set (twitter_window 6 1) = {}"
proof -
  have l: "length three_extracted = 3"
    by (simp add: three_extracted_def)
  have p: "twitterPosts three_topics = Val [''p0'', ''p1'', ''p2'', ''p3'', ''p4'', ''p5'']"
    using selected_three_topics by (simp add: selected_def six_posts_def)
  have n: "(0::nat) \<noteq> 1" by simp
  from twitter_disjoint_pairs
    [of three_topics "''p0''" "''p1''" "''p2''" "''p3''" "''p4''" "''p5''" 6 0 1 0]
  obtain ts tw where t: "extractTopicsWithSources (Val three_topics) = Inr ts"
    "twitterPosts three_topics = Val tw"
    "tw = [''p0'', ''p1'', ''p2'', ''p3'', ''p4'', ''p5''] \<and> length ts = 3 \<longrightarrow>
       map (\<lambda>t. twitter (sources t)) ts = [[''p0'', ''p1''], [''p2'', ''p3''], [''p4'', ''p5'']]"
    "(0::nat) \<noteq> 1 \<longrightarrow> set (twitter_window 6 0) \<inter> set (twitter_window 6 1) = {}"
    by (elim exE conjE) (rule that; assumption)
  from t(1) extract_three_topics have e: "ts = three_extracted"
    by (simp del: extractTopicsWithSources.simps)
  from t(2) p have "tw = [''p0'', ''p1'', ''p2'', ''p3'', ''p4'', ''p5'']"
    by simp
  with t(3) e l have "map (\<lambda>t. twitter (sources t)) three_extracted
       = [[''p0'', ''p1''], [''p2'', ''p3''], [''p4'', ''p5'']]"
    by simp
  moreover from t(4) n have "set (twitter_window 6 0) \<inter> set (twitter_window 6 1) = {}"
    by blast
  ultimately show ?thesis
    using extract_three_topics p l by (simp del: extractTopicsWithSources.simps)
qed

text \<open>
  C6. On tiktok, threads and reddit the topic at position \<open>i\<close> gets the slice from
  \<open>i\<close> to \<open>i + 1\<close>: the post at position \<open>i\<close> when it exists, and at most one
  post. Three posts and three topics give one post each, in order.
\<close>

theorem single_post_sources:
  "\<exists>ts tk th rd. extractTopicsWithSources (Val d) = Inr ts
    \<and> tiktokPosts d = Val tk \<and> threadsPosts d = Val th \<and> redditPosts d = Val rd
    \<and> (\<forall>i < length ts.
          tiktok (sources (ts ! i)) = slice tk i (i + 1)
          \<and> threads (sources (ts ! i)) = slice th i (i + 1)
          \<and> reddit (sources (ts ! i)) = slice rd i (i + 1)
          \<and> length (tiktok (sources (ts ! i))) \<le> 1
          \<and> length (threads (sources (ts ! i))) \<le> 1
          \<and> length (reddit (sources (ts ! i))) \<le> 1)
    \<and> (length ts = 3 \<longrightarrow>
          (tk = [q0, q1, q2] \<longrightarrow> map (\<lambda>t. tiktok (sources t)) ts = [[q0], [q1], [q2]])
          \<and> (th = [q0, q1, q2] \<longrightarrow> map (\<lambda>t. threads (sources t)) ts = [[q0], [q1], [q2]])
          \<and> (rd = [q0, q1, q2] \<longrightarrow> map (\<lambda>t. reddit (sources t)) ts = [[q0], [q1], [q2]]))
    \<and> (a < length ys \<longrightarrow> slice ys a (a + 1) = [ys ! a])
    \<and> (length ys \<le> a \<longrightarrow> slice ys a (a + 1) = [])"
proof -
  obtain xs tw tk th rd where s: "selected d xs tw tk th rd"
    using selected_ex by blast
  from extract_selected [OF s] obtain ts where ts: "extractTopicsWithSources (Val d) = Inr ts"
    by blast
  have 1: "tiktok (sources (ts ! i)) = slice tk i (i + 1)
      \<and> threads (sources (ts ! i)) = slice th i (i + 1)
      \<and> reddit (sources (ts ! i)) = slice rd i (i + 1)"
    if "i < length ts" for i
    using extract_sources(2,3,4) [OF ts that s] by simp
  have 2: "length (tiktok (sources (ts ! i))) \<le> 1
      \<and> length (threads (sources (ts ! i))) \<le> 1
      \<and> length (reddit (sources (ts ! i))) \<le> 1" if "i < length ts" for i
    by (simp add: 1 [OF that] slice_def)
  have 3: "map (\<lambda>t. tiktok (sources t)) ts = [[q0], [q1], [q2]]"
    if "length ts = 3" "tk = [q0, q1, q2]"
    by (simp add: three_nth_list [OF that(1)] 1 that slice_def)
  have 4: "map (\<lambda>t. threads (sources t)) ts = [[q0], [q1], [q2]]"
    if "length ts = 3" "th = [q0, q1, q2]"
    by (simp add: three_nth_list [OF that(1)] 1 that slice_def)
  have 5: "map (\<lambda>t. reddit (sources t)) ts = [[q0], [q1], [q2]]"
    if "length ts = 3" "rd = [q0, q1, q2]"
    by (simp add: three_nth_list [OF that(1)] 1 that slice_def)
  from s have p: "tiktokPosts d = Val tk" "threadsPosts d = Val th" "redditPosts d = Val rd"
    by (simp_all add: selected_def)
  from 1 2 have A: "\<forall>i < length ts.
          tiktok (sources (ts ! i)) = slice tk i (i + 1)
          \<and> threads (sources (ts ! i)) = slice th i (i + 1)
          \<and> reddit (sources (ts ! i)) = slice rd i (i + 1)
          \<and> length (tiktok (sources (ts ! i))) \<le> 1
          \<and> length (threads (sources (ts ! i))) \<le> 1
          \<and> length (reddit (sources (ts ! i))) \<le> 1"
    by simp
  from 3 4 5 have B: "length ts = 3 \<longrightarrow>
          (tk = [q0, q1, q2] \<longrightarrow> map (\<lambda>t. tiktok (sources t)) ts = [[q0], [q1], [q2]])
          \<and> (th = [q0, q1, q2] \<longrightarrow> map (\<lambda>t. threads (sources t)) ts = [[q0], [q1], [q2]])
          \<and> (rd = [q0, q1, q2] \<longrightarrow> map (\<lambda>t. reddit (sources t)) ts = [[q0], [q1], [q2]])"
    by simp
  have C: "a < length ys \<longrightarrow> slice ys a (a + 1) = [ys ! a]"
    using slice_single [of a ys] by simp
  have D: "length ys \<le> a \<longrightarrow> slice ys a (a + 1) = []"
    by (simp add: slice_def)
  show ?thesis
    by (rule exI [of _ ts], rule exI [of _ tk], rule exI [of _ th], rule exI [of _ rd])
      (intro conjI ts p A B C D)
qed

theorem single_post_sources_witness:
  "extractTopicsWithSources (Val three_topics) = Inr three_extracted
   \<and> tiktokPosts three_topics = Val [''q0'', ''q1'', ''q2'']
   \<and> length three_extracted = 3
   \<and> map (\<lambda>t. tiktok (sources t)) three_extracted = [[''q0''], [''q1''], [''q2'']]
   \<and> slice [''q0'', ''q1'', ''q2''] 1 (1 + 1) = [''q1'']"
proof -
  have l: "length three_extracted = 3"
    by (simp add: three_extracted_def)
  have p: "tiktokPosts three_topics = Val [''q0'', ''q1'', ''q2'']"
    using selected_three_topics by (simp add: selected_def three_posts_def)
  have n: "1 < length [''q0'', ''q1'', ''q2'']" by simp
  from single_post_sources
    [of three_topics "''q0''" "''q1''" "''q2''" 1 "[''q0'', ''q1'', ''q2'']"]
  obtain ts tk th rd where t: "extractTopicsWithSources (Val three_topics) = Inr ts"
    "tiktokPosts three_topics = Val tk"
    "length ts = 3 \<longrightarrow>
       (tk = [''q0'', ''q1'', ''q2''] \<longrightarrow>
          map (\<lambda>t. tiktok (sources t)) ts = [[''q0''], [''q1''], [''q2'']])
       \<and> (th = [''q0'', ''q1'', ''q2''] \<longrightarrow>
          map (\<lambda>t. threads (sources t)) ts = [[''q0''], [''q1''], [''q2'']])
       \<and> (rd = [''q0'', ''q1'', ''q2''] \<longrightarrow>
          map (\<lambda>t. reddit (sources t)) ts = [[''q0''], [''q1''], [''q2'']])"
    "1 < length [''q0'', ''q1'', ''q2''] \<longrightarrow>
       slice [''q0'', ''q1'', ''q2''] 1 (1 + 1) = [[''q0'', ''q1'', ''q2''] ! 1]"
    by (elim exE conjE) (rule that; assumption)
  from t(1) extract_three_topics have e: "ts = three_extracted"
    by (simp del: extractTopicsWithSources.simps)
  from t(2) p have "tk = [''q0'', ''q1'', ''q2'']"
    by simp
  with t(3) e l
  have "map (\<lambda>t. tiktok (sources t)) three_extracted = [[''q0''], [''q1''], [''q2'']]"
    by simp
  moreover from t(4) n have "slice [''q0'', ''q1'', ''q2''] 1 (1 + 1) = [''q1'']"
    by simp
  ultimately show ?thesis
    using extract_three_topics p l by (simp del: extractTopicsWithSources.simps)
qed

text \<open>
  C7, as claimed: on the three other platforms two distinct topics reuse a post
  position whenever there are posts and at least two topics. They do not: with three
  posts and three topics the windows are \<open>[0]\<close>, \<open>[1]\<close> and \<open>[2]\<close>, and each topic
  holds a different post.
\<close>

theorem single_post_overlap_counterexample:
  "extractTopicsWithSources (Val three_topics) = Inr three_extracted
   \<and> length three_extracted = 3
   \<and> tiktokPosts three_topics = Val three_posts
   \<and> threadsPosts three_topics = Val three_posts
   \<and> redditPosts three_topics = Val three_posts
   \<and> length three_posts = 3
   \<and> tiktok (sources (three_extracted ! 0)) = [''q0'']
   \<and> tiktok (sources (three_extracted ! 1)) = [''q1'']
   \<and> tiktok (sources (three_extracted ! 2)) = [''q2'']
   \<and> threads (sources (three_extracted ! 0)) = [''q0'']
   \<and> threads (sources (three_extracted ! 1)) = [''q1'']
   \<and> threads (sources (three_extracted ! 2)) = [''q2'']
   \<and> reddit (sources (three_extracted ! 0)) = [''q0'']
   \<and> reddit (sources (three_extracted ! 1)) = [''q1'']
   \<and> reddit (sources (three_extracted ! 2)) = [''q2'']
   \<and> single_post_window 3 0 = [0]
   \<and> single_post_window 3 1 = [1]
   \<and> single_post_window 3 2 = [2]
   \<and> \<not> reuses_post_index (single_post_window 3) 3"
proof -
  have "\<not> reuses_post_index (single_post_window 3) 3"
    by (simp add: reuses_post_index_def single_post_window_explicit upt_conv_Cons numeral_3_eq_3)
  moreover have "length three_extracted = 3"
    by (simp add: three_extracted_def)
  moreover have "tiktok (sources (three_extracted ! 0)) = [''q0'']
    \<and> tiktok (sources (three_extracted ! 1)) = [''q1'']
    \<and> tiktok (sources (three_extracted ! 2)) = [''q2'']
    \<and> threads (sources (three_extracted ! 0)) = [''q0'']
    \<and> threads (sources (three_extracted ! 1)) = [''q1'']
    \<and> threads (sources (three_extracted ! 2)) = [''q2'']
    \<and> reddit (sources (three_extracted ! 0)) = [''q0'']
    \<and> reddit (sources (three_extracted ! 1)) = [''q1'']
    \<and> reddit (sources (three_extracted ! 2)) = [''q2'']"
    by (simp add: three_extracted_def pushed_topic_def three_posts_def slice_def)
  ultimately show ?thesis
    using extract_three_topics selected_three_topics
    by (simp add: single_post_window_explicit selected_def three_posts_def
        del: extractTopicsWithSources.simps)
qed

text \<open>
  C7, amended. On tiktok, threads and reddit the windows of distinct topics never
  share a post position: the topic at position \<open>i\<close> copies position \<open>i\<close> only.
\<close>

theorem single_post_windows_disjoint:
  "single_post_window n i = filter (\<lambda>k. k < n) [i]
   \<and> (i \<noteq> j \<longrightarrow> set (single_post_window n i) \<inter> set (single_post_window n j) = {})
   \<and> \<not> reuses_post_index (single_post_window n) m
   \<and> (extractTopicsWithSources (Val d) = Inr ts \<and> i < length ts \<and> selected d xs tw tk th rd \<longrightarrow>
        tiktok (sources (ts ! i)) = map ((!) tk) (single_post_window (length tk) i)
        \<and> threads (sources (ts ! i)) = map ((!) th) (single_post_window (length th) i)
        \<and> reddit (sources (ts ! i)) = map ((!) rd) (single_post_window (length rd) i))"
proof -
  have r: "\<not> reuses_post_index (single_post_window n) m"
    using single_post_window_disjoint [of _ _ n]
    by (auto simp: reuses_post_index_def list_ex_iff)
  have w: "tiktok (sources (ts ! i)) = map ((!) tk) (single_post_window (length tk) i)
        \<and> threads (sources (ts ! i)) = map ((!) th) (single_post_window (length th) i)
        \<and> reddit (sources (ts ! i)) = map ((!) rd) (single_post_window (length rd) i)"
    if "extractTopicsWithSources (Val d) = Inr ts" "i < length ts" "selected d xs tw tk th rd"
    using extract_sources(2,3,4) [OF that]
    by (simp add: slice_conv_indices single_post_window_def)
  from r w single_post_window_explicit [of n i] single_post_window_disjoint [of i j n]
  show ?thesis by blast
qed

theorem single_post_windows_disjoint_witness:
  "(0::nat) \<noteq> 1
   \<and> set (single_post_window 3 0) \<inter> set (single_post_window 3 1) = {}
   \<and> extractTopicsWithSources (Val three_topics) = Inr three_extracted
   \<and> tiktok (sources (three_extracted ! 1))
       = map ((!) three_posts) (single_post_window (length three_posts) 1)"
proof -
  have l: "1 < length three_extracted"
    by (simp add: three_extracted_def)
  have n: "(0::nat) \<noteq> 1" by simp
  note t = single_post_windows_disjoint [of 3 0 1 0 three_topics three_extracted
      "[empty_entry, empty_entry, empty_entry]" six_posts three_posts three_posts three_posts]
  note u = single_post_windows_disjoint [of 3 1 0 0 three_topics three_extracted
      "[empty_entry, empty_entry, empty_entry]" six_posts three_posts three_posts three_posts]
  from t n have "set (single_post_window 3 0) \<inter> set (single_post_window 3 1) = {}"
    by blast
  moreover from u extract_three_topics l selected_three_topics
  have "tiktok (sources (three_extracted ! 1))
       = map ((!) three_posts) (single_post_window (length three_posts) 1)"
    by blast
  ultimately show ?thesis
    using extract_three_topics by (simp del: extractTopicsWithSources.simps)
qed

section \<open>Totality\<close>

lemma forEach_nullable_objects:
  assumes "list_all is_object xs"
  shows "\<exists>ys. forEach_push (callback_nullable (Val tw) (Val tk) (Val th) (Val rd)) xs i acc
            = Inr (acc @ ys) \<and> length ys = length xs"
  using assms
proof (induction xs arbitrary: i acc)
  case Nil
  then show ?case by simp
next
  case (Cons x xs)
  from Cons.prems obtain t where x: "x = Val t" and rest: "list_all is_object xs"
    by (cases x) simp_all
  from Cons.IH [OF rest, of "i + 1" "acc @ [pushed_topic tw tk th rd t i]"]
  obtain ys where ys: "forEach_push (callback_nullable (Val tw) (Val tk) (Val th) (Val rd)) xs
        (i + 1) (acc @ [pushed_topic tw tk th rd t i])
      = Inr ((acc @ [pushed_topic tw tk th rd t i]) @ ys)" "length ys = length xs"
    by blast
  show ?case
    using ys by (intro exI [of _ "pushed_topic tw tk th rd t i # ys"]) (simp add: x callback_Val)
qed

lemma forEach_nullable_throws:
  assumes "\<not> list_all is_object xs"
  shows "\<exists>e. forEach_push (callback_nullable (Val tw) (Val tk) (Val th) (Val rd)) xs i acc = Inl e"
  using assms
proof (induction xs arbitrary: i acc)
  case Nil
  then show ?case by simp
next
  case (Cons x xs)
  show ?case
  proof (cases x)
    case (Val t)
    with Cons.prems have "\<not> list_all is_object xs"
      by simp
    from Cons.IH [OF this] show ?thesis
      by (simp add: Val callback_Val)
  qed simp_all
qed

lemma forEach_object_elements:
  "forEach_push (callback_nullable tw tk th rd) (map Val xs) i acc
     = forEach_push (callback tw tk th rd) xs i acc"
  by (induction xs arbitrary: i acc) (simp_all split: sum.split)

lemma aiTopics_object_entries: "aiTopics (object_entries b) = object_elements (aiTopics b)"
proof (cases "ranked_topics b")
  case (Val xs)
  then show ?thesis
    by (simp add: aiTopics_def object_entries_def truthy_arr_def)
next
  case Absent
  then show ?thesis
  proof (cases "ai_topic_suggestions b")
    case (Val a)
    with Absent show ?thesis
      by (cases "ai_topic_suggestions_obj.topics a")
        (simp_all add: aiTopics_def object_entries_def truthy_arr_def)
  qed (simp_all add: aiTopics_def object_entries_def)
next
  case Null
  then show ?thesis
  proof (cases "ai_topic_suggestions b")
    case (Val a)
    with Null show ?thesis
      by (cases "ai_topic_suggestions_obj.topics a")
        (simp_all add: aiTopics_def object_entries_def truthy_arr_def)
  qed (simp_all add: aiTopics_def object_entries_def)
qed

lemma posts_object_entries:
  "twitterPosts (object_entries b) = twitterPosts b"
  "tiktokPosts (object_entries b) = tiktokPosts b"
  "threadsPosts (object_entries b) = threadsPosts b"
  "redditPosts (object_entries b) = redditPosts b"
  by (simp_all add: twitterPosts_def tiktokPosts_def threadsPosts_def redditPosts_def
      object_entries_def)

lemma extract_object_entries:
  "extractTopicsWithSources_nullable (Val (object_entries b)) = extractTopicsWithSources (Val b)"
proof -
  obtain xs tw tk th rd where "selected b xs tw tk th rd"
    using selected_ex by blast
  then have a: "aiTopics b = Val xs"
    by (simp add: selected_def)
  have "slice (map Val xs) 0 8 = map Val (slice xs 0 8)"
    by (simp add: slice_def take_map)
  then show ?thesis
    by (simp add: aiTopics_object_entries posts_object_entries a forEach_object_elements)
qed

lemma extract_nullable_objects:
  assumes "selected d xs tw tk th rd" and "list_all is_object (take 8 xs)"
  shows "\<exists>ts. extractTopicsWithSources_nullable (Val d) = Inr ts
           \<and> length ts = min (length xs) 8"
proof -
  from forEach_nullable_objects [OF assms(2), of tw tk th rd 0 "[]"]
  obtain ys where "forEach_push (callback_nullable (Val tw) (Val tk) (Val th) (Val rd))
      (take 8 xs) 0 [] = Inr ys" "length ys = length (take 8 xs)"
    by auto
  with assms(1) show ?thesis
    by (simp add: selected_def slice_def)
qed

lemma extract_nullable_throws:
  assumes "selected d xs tw tk th rd" and "\<not> list_all is_object (take 8 xs)"
  shows "\<exists>e. extractTopicsWithSources_nullable (Val d) = Inl e"
  using forEach_nullable_throws [OF assms(2), of tw tk th rd 0 "[]"] assms(1)
  by (simp add: selected_def slice_def)

lemma extract_typed_total:
  "\<exists>xs tw tk th rd ts. selected b xs tw tk th rd
      \<and> extractTopicsWithSources (Val b) = Inr ts
      \<and> length ts \<le> 8 \<and> length ts \<le> length xs"
proof -
  obtain xs tw tk th rd where s: "selected b xs tw tk th rd"
    using selected_ex by blast
  from extract_selected [OF s] obtain ts where ts: "extractTopicsWithSources (Val b) = Inr ts"
    by blast
  from s have "aiTopics b = Val xs"
    by (simp add: selected_def)
  from extract_length [OF ts this] have "length ts \<le> 8 \<and> length ts \<le> length xs"
    by simp
  with s ts show ?thesis by blast
qed

lemma selected_null_entry_body: "selected null_entry_body [Null] [] [] [] []"
  by (simp add: selected_def chain_defs null_entry_body_def no_keys_body_def)

lemma selected_mixed_body:
  "selected mixed_body [Val empty_entry, Val null_fields_entry, Val scored_75] six_posts [] [] []"
  by (simp add: selected_def chain_defs mixed_body_def empty_platform_def)

lemma selected_eight_then_null:
  "selected eight_then_null (replicate 8 (Val empty_entry) @ [Null]) [] [] [] []"
  by (simp add: selected_def chain_defs eight_then_null_def no_keys_body_def)

text \<open>
  C8, as claimed: the extractor never throws on a response object, whichever keys and
  branches are absent, null or empty. It does: on the body whose AI-topic sequence is
  \<open>[null]\<close> the callback reads a key of null at line 69 and throws a TypeError.
\<close>

theorem extract_null_entry_counterexample:
  "ranked_topics null_entry_body = Val [Null]
   \<and> aiTopics null_entry_body = Val [Null]
   \<and> extractTopicsWithSources_nullable (Val null_entry_body)
       = Inl (TypeError ''Cannot read properties of null'')"
  by (simp add: null_entry_body_def no_keys_body_def aiTopics_def truthy_arr_def slice_def)

text \<open>
  C8, amended. On a response object whose first eight AI-topic elements are objects the
  extractor never throws, whichever of its keys, of the keys of the nested objects and
  of the keys of the topic entries are absent, null or empty: every chain yields an
  array, so no slice is called on null or undefined, and the result is the sequence of
  \<open>min N 8\<close> topics. When one of the first eight elements is null it throws. On bodies
  whose entries are all objects this is the extractor of the earlier sections, which
  returns at most eight topics on every such body.
\<close>

theorem extract_total_objects:
  "\<exists>xs tw tk th rd. selected d xs tw tk th rd
      \<and> (list_all is_object (take 8 xs) \<longrightarrow>
           (\<exists>ts. extractTopicsWithSources_nullable (Val d) = Inr ts
              \<and> length ts = min (length xs) 8))
      \<and> (\<not> list_all is_object (take 8 xs) \<longrightarrow>
           (\<exists>e. extractTopicsWithSources_nullable (Val d) = Inl e))
      \<and> extractTopicsWithSources_nullable (Val (object_entries b))
           = extractTopicsWithSources (Val b)
      \<and> (\<exists>ys tw' tk' th' rd' ts. selected b ys tw' tk' th' rd'
           \<and> extractTopicsWithSources (Val b) = Inr ts
           \<and> length ts \<le> 8 \<and> length ts \<le> length ys)"
proof -
  obtain xs tw tk th rd where s: "selected d xs tw tk th rd"
    using selected_ex by blast
  have A: "list_all is_object (take 8 xs) \<longrightarrow>
           (\<exists>ts. extractTopicsWithSources_nullable (Val d) = Inr ts
              \<and> length ts = min (length xs) 8)"
    using extract_nullable_objects [OF s] by blast
  have B: "\<not> list_all is_object (take 8 xs) \<longrightarrow>
           (\<exists>e. extractTopicsWithSources_nullable (Val d) = Inl e)"
    using extract_nullable_throws [OF s] by blast
  show ?thesis
    by (rule exI [of _ xs], rule exI [of _ tw], rule exI [of _ tk], rule exI [of _ th],
        rule exI [of _ rd])
      (intro conjI s A B extract_object_entries extract_typed_total)
qed

theorem extract_total_objects_witness:
  "selected mixed_body [Val empty_entry, Val null_fields_entry, Val scored_75] six_posts [] [] []
   \<and> list_all is_object (take 8 [Val empty_entry, Val null_fields_entry, Val scored_75])
   \<and> length (projr (extractTopicsWithSources_nullable (Val mixed_body))) = 3
   \<and> \<not> isl (extractTopicsWithSources_nullable (Val mixed_body))
   \<and> list_all is_object (take 8 (replicate 8 (Val empty_entry) @ [Null]))
   \<and> length (projr (extractTopicsWithSources_nullable (Val eight_then_null))) = 8
   \<and> \<not> isl (extractTopicsWithSources_nullable (Val eight_then_null))
   \<and> \<not> list_all is_object (take 8 [Null :: topic_entry js])
   \<and> isl (extractTopicsWithSources_nullable (Val null_entry_body))
   \<and> extractTopicsWithSources_nullable (Val (object_entries null_result)) = Inr []"
proof -
  have o: "list_all is_object (take 8 [Val empty_entry, Val null_fields_entry, Val scored_75])"
    "list_all is_object (take 8 (replicate 8 (Val empty_entry) @ [Null]))"
    "\<not> list_all is_object (take 8 [Null :: topic_entry js])"
    by (simp_all add: list_all_iff)
  from extract_total_objects [of mixed_body empty_result]
  obtain xs tw tk th rd where m: "selected mixed_body xs tw tk th rd"
    "list_all is_object (take 8 xs) \<longrightarrow>
       (\<exists>ts. extractTopicsWithSources_nullable (Val mixed_body) = Inr ts
          \<and> length ts = min (length xs) 8)"
    by (elim exE conjE) (rule that; assumption)
  from m(1) selected_mixed_body
  have "xs = [Val empty_entry, Val null_fields_entry, Val scored_75]"
    by (simp add: selected_def)
  with m(2) o(1) obtain ts where 1: "extractTopicsWithSources_nullable (Val mixed_body) = Inr ts"
    "length ts = 3"
    by (auto simp del: extractTopicsWithSources_nullable.simps)
  from extract_total_objects [of eight_then_null empty_result]
  obtain xs' tw' tk' th' rd' where e: "selected eight_then_null xs' tw' tk' th' rd'"
    "list_all is_object (take 8 xs') \<longrightarrow>
       (\<exists>ts. extractTopicsWithSources_nullable (Val eight_then_null) = Inr ts
          \<and> length ts = min (length xs') 8)"
    by (elim exE conjE) (rule that; assumption)
  from e(1) selected_eight_then_null have "xs' = replicate 8 (Val empty_entry) @ [Null]"
    by (simp add: selected_def)
  with e(2) o(2) obtain ts' where 2:
    "extractTopicsWithSources_nullable (Val eight_then_null) = Inr ts'" "length ts' = 8"
    by (auto simp del: extractTopicsWithSources_nullable.simps)
  from extract_total_objects [of null_entry_body empty_result]
  obtain xs'' tw'' tk'' th'' rd'' where n: "selected null_entry_body xs'' tw'' tk'' th'' rd''"
    "\<not> list_all is_object (take 8 xs'') \<longrightarrow>
       (\<exists>e. extractTopicsWithSources_nullable (Val null_entry_body) = Inl e)"
    by (elim exE conjE) (rule that; assumption)
  from n(1) selected_null_entry_body have "xs'' = [Null]"
    by (simp add: selected_def)
  with n(2) o(3) obtain err where 3:
    "extractTopicsWithSources_nullable (Val null_entry_body) = Inl err"
    by (auto simp del: extractTopicsWithSources_nullable.simps)
  from extract_total_objects [of null_entry_body null_result]
  have "extractTopicsWithSources_nullable (Val (object_entries null_result))
      = extractTopicsWithSources (Val null_result)"
    by (elim exE conjE) assumption
  with extract_null_result
  have 4: "extractTopicsWithSources_nullable (Val (object_entries null_result)) = Inr []"
    by (simp only:)
  from 1 2 3 4 o selected_mixed_body show ?thesis
    by (simp del: extractTopicsWithSources_nullable.simps)
qed


section \<open>Failure of the research call\<close>

lemma on_rejected_storage:
  "podcastTopics (on_rejected err st) = podcastTopics st
   \<and> written (on_rejected err st) = written st"
  by (simp add: on_rejected_def)

lemma on_rejected_shown: "error_shown (on_rejected err st)"
  by (simp add: on_rejected_def truthy_str_def)

lemma generateIdeas_storage:
  "podcastTopics (generateIdeas st) = podcastTopics st
   \<and> written (generateIdeas st) = written st"
  by (simp add: generateIdeas_def save_effect_def)

lemma on_fulfilled_storage:
  "(podcastTopics (on_fulfilled data st), written (on_fulfilled data st)) =
     (case extractTopicsWithSources_nullable data of
        Inl err \<Rightarrow> (podcastTopics st, written st)
      | Inr ts \<Rightarrow> if ts = [] then (podcastTopics st, written st)
                  else (Some ts, written st @ [ts]))"
  by (simp add: on_fulfilled_def save_effect_def on_rejected_def split: sum.split)

lemma mount_storage:
  "podcastTopics (mount saved) = saved
   \<and> written (mount saved)
       = (case saved of None \<Rightarrow> [] | Some ts \<Rightarrow> if ts = [] then [] else [ts])"
  by (cases saved) (simp_all add: mount_def save_effect_def)

lemma catch_keeps:
  assumes "reaches_catch ev"
  shows "error_shown (step ev st) \<and> podcastTopics (step ev st) = podcastTopics st
    \<and> written (step ev st) = written st"
proof (cases ev)
  case Click
  with assms show ?thesis by simp
next
  case (Responded res)
  show ?thesis
  proof (cases "json res")
    case (Inl err)
    with Responded show ?thesis
      using on_rejected_shown [of err st] on_rejected_storage [of err st]
      by (simp add: on_response_def)
  next
    case (Inr data)
    with assms Responded obtain err where "extractTopicsWithSources_nullable data = Inl err"
      by (cases "extractTopicsWithSources_nullable data") simp_all
    with Responded Inr show ?thesis
      using on_rejected_shown [of err st] on_rejected_storage [of err st]
      by (simp add: on_response_def on_fulfilled_def)
  qed
next
  case (NetworkError err)
  then show ?thesis
    using on_rejected_shown [of err st] on_rejected_storage [of err st] by simp
qed

lemma step_write:
  assumes "written (step ev st) \<noteq> written st \<or> podcastTopics (step ev st) \<noteq> podcastTopics st"
  shows "\<exists>res data ts. ev = Responded res \<and> json res = Inr data
           \<and> extractTopicsWithSources_nullable data = Inr ts \<and> ts \<noteq> []
           \<and> written (step ev st) = written st @ [ts]
           \<and> podcastTopics (step ev st) = Some ts"
proof (cases ev)
  case Click
  with assms show ?thesis by (simp add: generateIdeas_storage)
next
  case (Responded res)
  show ?thesis
  proof (cases "json res")
    case (Inl err)
    with assms Responded show ?thesis
      by (simp add: on_response_def on_rejected_storage)
  next
    case (Inr data)
    have s: "step ev st = on_fulfilled data st"
      by (simp add: Responded Inr on_response_def)
    from assms on_fulfilled_storage [of data st] show ?thesis
      unfolding s
      by (cases "extractTopicsWithSources_nullable data")
        (auto simp: Responded Inr split: if_splits)
  qed
next
  case (NetworkError err)
  with assms show ?thesis by (simp add: on_rejected_storage)
qed

lemma run_storage:
  "podcastTopics (run evs st) = podcastTopics st
   \<or> (\<exists>res data ts. Responded res \<in> set evs \<and> json res = Inr data
         \<and> extractTopicsWithSources_nullable data = Inr ts \<and> ts \<noteq> []
         \<and> podcastTopics (run evs st) = Some ts)"
proof (induction evs arbitrary: st)
  case Nil
  then show ?case by simp
next
  case (Cons ev evs)
  show ?case
  proof (cases "podcastTopics (step ev st) = podcastTopics st")
    case True
    with Cons.IH [of "step ev st"] show ?thesis by auto
  next
    case False
    then have "written (step ev st) \<noteq> written st \<or> podcastTopics (step ev st) \<noteq> podcastTopics st"
      by simp
    from step_write [OF this] Cons.IH [of "step ev st"] show ?thesis
      by (auto simp del: step.simps)
  qed
qed

lemma run_written:
  assumes "ts \<in> set (written (run evs st))"
  shows "ts \<in> set (written st)
    \<or> (\<exists>res data. Responded res \<in> set evs \<and> json res = Inr data
          \<and> extractTopicsWithSources_nullable data = Inr ts \<and> ts \<noteq> [])"
  using assms
proof (induction evs arbitrary: st)
  case Nil
  then show ?case by simp
next
  case (Cons ev evs)
  from Cons.prems have "ts \<in> set (written (run evs (step ev st)))"
    by simp
  from Cons.IH [OF this] consider
    (old) "ts \<in> set (written (step ev st))"
    | (later) "\<exists>res data. Responded res \<in> set evs \<and> json res = Inr data
          \<and> extractTopicsWithSources_nullable data = Inr ts \<and> ts \<noteq> []"
    by blast
  then show ?case
  proof cases
    case old
    show ?thesis
    proof (cases "written (step ev st) = written st")
      case True
      with old show ?thesis by simp
    next
      case False
      then have "written (step ev st) \<noteq> written st
          \<or> podcastTopics (step ev st) \<noteq> podcastTopics st"
        by simp
      from step_write [OF this] obtain res data us where u: "ev = Responded res"
        "json res = Inr data" "extractTopicsWithSources_nullable data = Inr us" "us \<noteq> []"
        "written (step ev st) = written st @ [us]"
        by blast
      from old u(5) have "ts \<in> set (written st) \<or> ts = us"
        by auto
      with u(1-4) show ?thesis
        by auto
    qed
  next
    case later
    then show ?thesis by auto
  qed
qed

lemma mount_written: "ts \<in> set (written (mount saved)) \<Longrightarrow> saved = Some ts"
  using mount_storage [of saved] by (cases saved) (auto split: if_splits)

lemma extract_no_keys_body: "extractTopicsWithSources_nullable (Val no_keys_body) = Inr []"
  by (simp add: no_keys_body_def aiTopics_def slice_def)

lemma extract_three_topics_body:
  "extractTopicsWithSources_nullable (Val (object_entries three_topics)) = Inr three_extracted"
  by (simp only: extract_object_entries extract_three_topics)

text \<open>
  C9, as claimed: a research call that fails, by a network error or a rejected request,
  shows the error state, and the stored entry is only ever written after a successful
  extraction that produced topics. Neither holds throughout. A request that the server
  rejects with a non-success status and a JSON body is parsed and extracted like any
  other: no error is shown. And the effect that runs at mount writes the list just
  loaded, with no extraction before it.
\<close>

theorem failed_call_counterexample:
  "call_failed (Responded server_error)
   \<and> \<not> error_shown (step (Responded server_error) (step Click (mount None)))
   \<and> error (step (Responded server_error) (step Click (mount None))) = Null
   \<and> written (mount (Some three_extracted)) = [three_extracted]"
proof -
  have "three_extracted \<noteq> []"
    by (simp add: three_extracted_def)
  then show ?thesis
    by (simp add: server_error_def on_response_def on_fulfilled_def extract_no_keys_body
        mount_def generateIdeas_def save_effect_def
        del: extractTopicsWithSources_nullable.simps)
qed

text \<open>
  C9, amended. When the promise chain of a research call ends in the catch handler
  (the network failed, the body was not JSON, or the extractor threw on the parsed
  body), the error panel is shown and the stored topic list is neither written nor
  changed. A step writes the entry only when a body was parsed and the extractor
  returned a non-empty sequence, which is then the list stored. The only other write is
  that of the effect at mount, which stores the non-empty list just loaded; so every
  list written during a run of the page, and the entry after it, is the list found at
  mount or the result of such an extraction.
\<close>

theorem failure_keeps_persisted_topics:
  "(reaches_catch ev \<longrightarrow>
      error_shown (step ev st) \<and> podcastTopics (step ev st) = podcastTopics st
      \<and> written (step ev st) = written st)
   \<and> (written (step ev st) \<noteq> written st \<or> podcastTopics (step ev st) \<noteq> podcastTopics st \<longrightarrow>
        (\<exists>res data ts. ev = Responded res \<and> json res = Inr data
           \<and> extractTopicsWithSources_nullable data = Inr ts \<and> ts \<noteq> []
           \<and> written (step ev st) = written st @ [ts]
           \<and> podcastTopics (step ev st) = Some ts))
   \<and> podcastTopics (mount saved) = saved
   \<and> written (mount saved)
       = (case saved of None \<Rightarrow> [] | Some ts \<Rightarrow> if ts = [] then [] else [ts])
   \<and> (\<forall>ts \<in> set (written (run evs (mount saved))).
        saved = Some ts
        \<or> (\<exists>res data. Responded res \<in> set evs \<and> json res = Inr data
              \<and> extractTopicsWithSources_nullable data = Inr ts \<and> ts \<noteq> []))
   \<and> (podcastTopics (run evs (mount saved)) = saved
        \<or> (\<exists>res data ts. Responded res \<in> set evs \<and> json res = Inr data
              \<and> extractTopicsWithSources_nullable data = Inr ts \<and> ts \<noteq> []
              \<and> podcastTopics (run evs (mount saved)) = Some ts))"
proof -
  have A: "reaches_catch ev \<longrightarrow>
      error_shown (step ev st) \<and> podcastTopics (step ev st) = podcastTopics st
      \<and> written (step ev st) = written st"
    using catch_keeps [of ev st] by blast
  have B: "written (step ev st) \<noteq> written st \<or> podcastTopics (step ev st) \<noteq> podcastTopics st \<longrightarrow>
        (\<exists>res data ts. ev = Responded res \<and> json res = Inr data
           \<and> extractTopicsWithSources_nullable data = Inr ts \<and> ts \<noteq> []
           \<and> written (step ev st) = written st @ [ts]
           \<and> podcastTopics (step ev st) = Some ts)"
    using step_write [of ev st] by blast
  have C: "podcastTopics (mount saved) = saved"
    and D: "written (mount saved)
       = (case saved of None \<Rightarrow> [] | Some ts \<Rightarrow> if ts = [] then [] else [ts])"
    using mount_storage [of saved] by simp_all
  have E: "\<forall>ts \<in> set (written (run evs (mount saved))).
        saved = Some ts
        \<or> (\<exists>res data. Responded res \<in> set evs \<and> json res = Inr data
              \<and> extractTopicsWithSources_nullable data = Inr ts \<and> ts \<noteq> [])"
    using run_written [of _ evs "mount saved"] mount_written [of _ saved] by blast
  have F: "podcastTopics (run evs (mount saved)) = saved
        \<or> (\<exists>res data ts. Responded res \<in> set evs \<and> json res = Inr data
              \<and> extractTopicsWithSources_nullable data = Inr ts \<and> ts \<noteq> []
              \<and> podcastTopics (run evs (mount saved)) = Some ts)"
    using run_storage [of evs "mount saved"] C by simp
  show ?thesis
    by (intro conjI A B C D E F)
qed


theorem failure_keeps_persisted_topics_witness:
  "reaches_catch (NetworkError (TypeError ''Failed to fetch'') :: string event)
   \<and> error_shown (step (NetworkError (TypeError ''Failed to fetch'')) (mount (Some three_extracted)))
   \<and> podcastTopics (step (NetworkError (TypeError ''Failed to fetch'')) (mount (Some three_extracted)))
       = Some three_extracted
   \<and> written (step (NetworkError (TypeError ''Failed to fetch'')) (mount (Some three_extracted)))
       = [three_extracted]
   \<and> reaches_catch (Responded null_entry_response)
   \<and> error_shown (step (Responded null_entry_response) (mount None))
   \<and> written (step (Responded null_entry_response) (mount None)) = []
   \<and> written (step (Responded three_topics_response) (mount None)) \<noteq> written (mount None)
   \<and> written (step (Responded three_topics_response) (mount None)) = [three_extracted]
   \<and> podcastTopics (step (Responded three_topics_response) (mount None)) = Some three_extracted
   \<and> three_extracted \<in> set (written (run [Responded three_topics_response] (mount None)))
   \<and> extractTopicsWithSources_nullable (Val (object_entries three_topics)) = Inr three_extracted"
proof -
  have ne: "three_extracted \<noteq> []"
    by (simp add: three_extracted_def)
  have m: "podcastTopics (mount (Some three_extracted)) = Some three_extracted"
    "written (mount (Some three_extracted)) = [three_extracted]"
    "podcastTopics (mount (None :: string Topic list option)) = None"
    "written (mount (None :: string Topic list option)) = []"
    using ne by (simp_all add: mount_def save_effect_def)
  have c1: "reaches_catch (NetworkError (TypeError ''Failed to fetch'') :: string event)"
    by simp
  have c2: "reaches_catch (Responded null_entry_response)"
    by (simp add: null_entry_response_def null_entry_body_def no_keys_body_def aiTopics_def
        truthy_arr_def slice_def)
  have j: "json three_topics_response = Inr (Val (object_entries three_topics))"
    by (simp add: three_topics_response_def)
  have w: "written (step (Responded three_topics_response) (mount None)) \<noteq> written (mount None)"
    using ne on_fulfilled_storage [of "Val (object_entries three_topics)" "mount None"]
    by (simp add: on_response_def j extract_three_topics_body m
        del: extractTopicsWithSources_nullable.simps)
  note a = failure_keeps_persisted_topics
    [where ev = "NetworkError (TypeError ''Failed to fetch'')"
       and st = "mount (Some three_extracted)"]
  note b = failure_keeps_persisted_topics
    [where ev = "Responded null_entry_response" and st = "mount None"]
  note c = failure_keeps_persisted_topics
    [where ev = "Responded three_topics_response" and st = "mount None"]
  from a c1 have 1:
    "error_shown (step (NetworkError (TypeError ''Failed to fetch'')) (mount (Some three_extracted)))
     \<and> podcastTopics (step (NetworkError (TypeError ''Failed to fetch''))
          (mount (Some three_extracted))) = podcastTopics (mount (Some three_extracted))
     \<and> written (step (NetworkError (TypeError ''Failed to fetch''))
          (mount (Some three_extracted))) = written (mount (Some three_extracted))"
    by blast
  from b c2 have 2: "error_shown (step (Responded null_entry_response) (mount None))
     \<and> written (step (Responded null_entry_response) (mount None)) = written (mount None)"
    by blast
  from c w obtain res data ts where t: "Responded three_topics_response = Responded res"
    "json res = Inr data" "extractTopicsWithSources_nullable data = Inr ts"
    "written (step (Responded three_topics_response) (mount None)) = written (mount None) @ [ts]"
    "podcastTopics (step (Responded three_topics_response) (mount None)) = Some ts"
    by blast
  from t(1,2) j have "data = Val (object_entries three_topics)"
    by simp
  with t(3) extract_three_topics_body have e: "ts = three_extracted"
    by (simp del: extractTopicsWithSources_nullable.simps)
  from t(4,5) e m have 3:
    "written (step (Responded three_topics_response) (mount None)) = [three_extracted]"
    "podcastTopics (step (Responded three_topics_response) (mount None)) = Some three_extracted"
    by simp_all
  from 3(1) have 4:
    "three_extracted \<in> set (written (run [Responded three_topics_response] (mount None)))"
    by (simp del: step.simps)
  note d = failure_keeps_persisted_topics
    [where evs = "[Responded three_topics_response]" and saved = None]
  note q = d [THEN conjunct2, THEN conjunct2, THEN conjunct2, THEN conjunct2, THEN conjunct1]
  from bspec [OF q 4]
  obtain res' data' where r: "Responded res' \<in> set [Responded three_topics_response]"
    "json res' = Inr data'" "extractTopicsWithSources_nullable data' = Inr three_extracted"
    by (elim disjE exE conjE) simp_all
  from r(1,2) j have "data' = Val (object_entries three_topics)"
    by simp
  with r(3) have 5:
    "extractTopicsWithSources_nullable (Val (object_entries three_topics)) = Inr three_extracted"
    by simp
  from 1 2 3 4 5 c1 c2 w m show ?thesis
    by (simp del: step.simps error_shown.simps reaches_catch.simps
        extractTopicsWithSources_nullable.simps)
qed

end
